theory Spec2Isabelle
  imports Complex_Main "HOL-Library.Word"
begin

unbundle bit_operations_syntax

section \<open>Machine model\<close>

text \<open>
  The aligned-allocation layer of mimalloc (\<^verbatim>\<open>alloc-aligned.c\<close>) on a 64-bit target:
  \<^verbatim>\<open>size_t\<close>, \<^verbatim>\<open>uintptr_t\<close> and pointers are 64-bit words whose arithmetic wraps,
  \<^verbatim>\<open>ptrdiff_t\<close> is the same word read as two's complement, \<^verbatim>\<open>NULL\<close> is the word 0,
  \<^verbatim>\<open>sizeof(uintptr_t) = sizeof(void*) = sizeof(intptr_t) = 8\<close> and
  \<^verbatim>\<open>PTRDIFF_MAX = 2^63 - 1\<close>.
\<close>

type_synonym addr = "64 word"
type_synonym size_t = "64 word"
type_synonym byte = "8 word"

definition PTRDIFF_MAX :: size_t where
  "PTRDIFF_MAX = 0x7FFFFFFFFFFFFFFF"

definition sizeof_uintptr_t :: size_t where
  "sizeof_uintptr_t = 8"

definition sizeof_intptr_t :: size_t where
  "sizeof_intptr_t = 8"

definition sizeof_voidp :: size_t where
  "sizeof_voidp = 8"

text \<open>
  The build configuration. The constants and the helper \<^verbatim>\<open>_mi_is_power_of_two\<close> are
  declared in \<^verbatim>\<open>mimalloc-types.h\<close> and \<^verbatim>\<open>mimalloc-internal.h\<close>, which are not part of
  the source at hand, so they are parameters of the model. \<open>MI_PADDING\<close> selects between
  the two preprocessor branches of \<^verbatim>\<open>mi_heap_malloc_aligned\<close> and of the zeroing step
  of the fallback. The diagnostic hooks (\<^verbatim>\<open>_mi_error_message\<close> under \<^verbatim>\<open>MI_DEBUG\<close>,
  \<^verbatim>\<open>mi_heap_stat_increase\<close> under \<^verbatim>\<open>MI_STAT\<close>, \<^verbatim>\<open>mi_track_*\<close> under
  \<^verbatim>\<open>MI_TRACK_ENABLED\<close>, the \<^verbatim>\<open>PAGODA_DEBUG\<close> prints) and the internal assertions
  never change a result or the heap; the model is of a build without them.
\<close>

record mi_config =
  MI_PADDING :: bool
  MI_PADDING_SIZE :: size_t
  MI_MAX_ALIGN_SIZE :: size_t
  MI_SMALL_SIZE_MAX :: size_t
  MI_MEDIUM_OBJ_SIZE_MAX :: size_t
  MI_ALIGNMENT_MAX :: size_t
  mi_is_power_of_two :: "size_t \<Rightarrow> bool"

section \<open>State: memory, the base allocator, and the calls made\<close>

text \<open>
  Every call that leaves \<^verbatim>\<open>alloc-aligned.c\<close> is recorded, in order, with its arguments.
\<close>

datatype event =
    EvGetFreeSmallPage addr size_t
  | EvPageMalloc addr size_t bool
  | EvHeapMallocZero addr size_t bool
  | EvHeapMallocZeroEx addr size_t bool size_t
  | EvHeapMallocSmall addr size_t
  | EvHeapReallocZero addr addr size_t bool
  | EvPageSetHasAligned addr
  | EvMemzero addr size_t
  | EvMemset addr byte size_t
  | EvMemcpy addr addr size_t
  | EvFree addr

record 'b mi_world =
  mem :: "addr \<Rightarrow> byte"
  priv :: 'b

record 'b mi_state =
  world :: "'b mi_world"
  calls :: "event list"

text \<open>
  The base allocator (heap, page and segment layer) is not part of the source at hand:
  it is a parameter, one field per primitive that \<^verbatim>\<open>alloc-aligned.c\<close> uses. Allocation
  primitives may change the memory and the allocator's private state \<open>priv\<close>; page
  flags live in the private state; the remaining fields are read-only lookups.
  \<open>b_page_free h n\<close> is \<^verbatim>\<open>_mi_heap_get_free_small_page(h, n)->free\<close> and
  \<open>b_page_malloc h n z\<close> is \<^verbatim>\<open>_mi_page_malloc\<close> on that same page; the other lookups
  take the pointer whose page (\<^verbatim>\<open>_mi_ptr_page\<close>) they inspect.
\<close>

record 'b mi_base =
  b_heap_malloc_zero :: "addr \<Rightarrow> size_t \<Rightarrow> bool \<Rightarrow> 'b mi_world \<Rightarrow> addr \<times> 'b mi_world"
  b_heap_malloc_zero_ex :: "addr \<Rightarrow> size_t \<Rightarrow> bool \<Rightarrow> size_t \<Rightarrow> 'b mi_world \<Rightarrow> addr \<times> 'b mi_world"
  b_heap_malloc_small :: "addr \<Rightarrow> size_t \<Rightarrow> 'b mi_world \<Rightarrow> addr \<times> 'b mi_world"
  b_heap_realloc_zero :: "addr \<Rightarrow> addr \<Rightarrow> size_t \<Rightarrow> bool \<Rightarrow> 'b mi_world \<Rightarrow> addr \<times> 'b mi_world"
  b_page_free :: "addr \<Rightarrow> size_t \<Rightarrow> 'b mi_world \<Rightarrow> addr"
  b_page_malloc :: "addr \<Rightarrow> size_t \<Rightarrow> bool \<Rightarrow> 'b mi_world \<Rightarrow> addr \<times> 'b mi_world"
  b_page_set_has_aligned :: "addr \<Rightarrow> 'b \<Rightarrow> 'b"
  b_page_usable_block_size :: "addr \<Rightarrow> 'b mi_world \<Rightarrow> size_t"
  b_page_is_zero :: "addr \<Rightarrow> 'b mi_world \<Rightarrow> bool"
  b_usable_size :: "addr \<Rightarrow> 'b mi_world \<Rightarrow> size_t"
  b_free :: "addr \<Rightarrow> 'b mi_world \<Rightarrow> 'b mi_world"
  b_get_default_heap :: "'b mi_world \<Rightarrow> addr"

subsection \<open>Memory writes\<close>

text \<open>
  \<open>fill m p n c\<close> stores \<open>c\<close> in the \<open>n\<close> bytes from \<open>p\<close> on, \<open>copy m dst src n\<close>
  copies \<open>n\<close> bytes; an address \<open>a\<close> is among the \<open>n\<close> bytes from \<open>p\<close> on when
  \<open>a - p < n\<close> in 64-bit arithmetic.
\<close>

definition fill :: "(addr \<Rightarrow> byte) \<Rightarrow> addr \<Rightarrow> size_t \<Rightarrow> byte \<Rightarrow> (addr \<Rightarrow> byte)" where
  "fill m p n c = (\<lambda>a. if a - p < n then c else m a)"

definition copy :: "(addr \<Rightarrow> byte) \<Rightarrow> addr \<Rightarrow> addr \<Rightarrow> size_t \<Rightarrow> (addr \<Rightarrow> byte)" where
  "copy m dst src n = (\<lambda>a. if a - dst < n then m (src + (a - dst)) else m a)"

definition record_call :: "event \<Rightarrow> 'b mi_state \<Rightarrow> 'b mi_state" where
  "record_call e s = s\<lparr>calls := calls s @ [e]\<rparr>"

definition mi_memzero :: "addr \<Rightarrow> size_t \<Rightarrow> 'b mi_state \<Rightarrow> 'b mi_state" where
  "mi_memzero p n s =
     record_call (EvMemzero p n) (s\<lparr>world := (world s)\<lparr>mem := fill (mem (world s)) p n 0\<rparr>\<rparr>)"

definition memset :: "addr \<Rightarrow> byte \<Rightarrow> size_t \<Rightarrow> 'b mi_state \<Rightarrow> 'b mi_state" where
  "memset p c n s =
     record_call (EvMemset p c n) (s\<lparr>world := (world s)\<lparr>mem := fill (mem (world s)) p n c\<rparr>\<rparr>)"

definition mi_memcpy_aligned :: "addr \<Rightarrow> addr \<Rightarrow> size_t \<Rightarrow> 'b mi_state \<Rightarrow> 'b mi_state" where
  "mi_memcpy_aligned dst src n s =
     record_call (EvMemcpy dst src n) (s\<lparr>world := (world s)\<lparr>mem := copy (mem (world s)) dst src n\<rparr>\<rparr>)"

subsection \<open>Calls into the base allocator\<close>

definition mi_heap_malloc_zero ::
  "'b mi_base \<Rightarrow> addr \<Rightarrow> size_t \<Rightarrow> bool \<Rightarrow> 'b mi_state \<Rightarrow> addr \<times> 'b mi_state" where
  "mi_heap_malloc_zero B heap sz zero s =
     (let (p, w) = b_heap_malloc_zero B heap sz zero (world s)
      in (p, record_call (EvHeapMallocZero heap sz zero) (s\<lparr>world := w\<rparr>)))"

definition mi_heap_malloc_zero_ex ::
  "'b mi_base \<Rightarrow> addr \<Rightarrow> size_t \<Rightarrow> bool \<Rightarrow> size_t \<Rightarrow> 'b mi_state \<Rightarrow> addr \<times> 'b mi_state" where
  "mi_heap_malloc_zero_ex B heap sz zero huge_alignment s =
     (let (p, w) = b_heap_malloc_zero_ex B heap sz zero huge_alignment (world s)
      in (p, record_call (EvHeapMallocZeroEx heap sz zero huge_alignment) (s\<lparr>world := w\<rparr>)))"

definition mi_heap_malloc_small ::
  "'b mi_base \<Rightarrow> addr \<Rightarrow> size_t \<Rightarrow> 'b mi_state \<Rightarrow> addr \<times> 'b mi_state" where
  "mi_heap_malloc_small B heap sz s =
     (let (p, w) = b_heap_malloc_small B heap sz (world s)
      in (p, record_call (EvHeapMallocSmall heap sz) (s\<lparr>world := w\<rparr>)))"

definition mi_heap_realloc_zero ::
  "'b mi_base \<Rightarrow> addr \<Rightarrow> addr \<Rightarrow> size_t \<Rightarrow> bool \<Rightarrow> 'b mi_state \<Rightarrow> addr \<times> 'b mi_state" where
  "mi_heap_realloc_zero B heap p newsize zero s =
     (let (q, w) = b_heap_realloc_zero B heap p newsize zero (world s)
      in (q, record_call (EvHeapReallocZero heap p newsize zero) (s\<lparr>world := w\<rparr>)))"

definition mi_heap_get_free_small_page ::
  "'b mi_base \<Rightarrow> addr \<Rightarrow> size_t \<Rightarrow> 'b mi_state \<Rightarrow> addr \<times> 'b mi_state" where
  "mi_heap_get_free_small_page B heap sz s =
     (b_page_free B heap sz (world s), record_call (EvGetFreeSmallPage heap sz) s)"

definition mi_page_malloc ::
  "'b mi_base \<Rightarrow> addr \<Rightarrow> size_t \<Rightarrow> bool \<Rightarrow> 'b mi_state \<Rightarrow> addr \<times> 'b mi_state" where
  "mi_page_malloc B heap sz zero s =
     (let (p, w) = b_page_malloc B heap sz zero (world s)
      in (p, record_call (EvPageMalloc heap sz zero) (s\<lparr>world := w\<rparr>)))"

definition mi_page_set_has_aligned :: "'b mi_base \<Rightarrow> addr \<Rightarrow> 'b mi_state \<Rightarrow> 'b mi_state" where
  "mi_page_set_has_aligned B p s =
     record_call (EvPageSetHasAligned p)
       (s\<lparr>world := (world s)\<lparr>priv := b_page_set_has_aligned B p (priv (world s))\<rparr>\<rparr>)"

definition mi_free :: "'b mi_base \<Rightarrow> addr \<Rightarrow> 'b mi_state \<Rightarrow> 'b mi_state" where
  "mi_free B p s = record_call (EvFree p) (s\<lparr>world := b_free B p (world s)\<rparr>)"

definition mi_usable_size :: "'b mi_base \<Rightarrow> addr \<Rightarrow> 'b mi_state \<Rightarrow> size_t" where
  "mi_usable_size B p s = b_usable_size B p (world s)"

definition mi_page_usable_block_size :: "'b mi_base \<Rightarrow> addr \<Rightarrow> 'b mi_state \<Rightarrow> size_t" where
  "mi_page_usable_block_size B p s = b_page_usable_block_size B p (world s)"

definition mi_page_is_zero :: "'b mi_base \<Rightarrow> addr \<Rightarrow> 'b mi_state \<Rightarrow> bool" where
  "mi_page_is_zero B p s = b_page_is_zero B p (world s)"

definition mi_get_default_heap :: "'b mi_base \<Rightarrow> 'b mi_state \<Rightarrow> addr" where
  "mi_get_default_heap B s = b_get_default_heap B (world s)"

section \<open>Aligned allocation\<close>

text \<open>
  \<^verbatim>\<open>mi_heap_malloc_zero_aligned_at_fallback\<close>, lines 58 to 90: align within the
  block \<open>p\<close> that was obtained, flag the page when the result is an interior pointer,
  and zero from the aligned pointer on when the block came from the huge-alignment path.
  \<open>zsize\<close> is a \<^verbatim>\<open>ptrdiff_t\<close>: the test \<^verbatim>\<open>zsize > 0\<close> reads the word as signed.
\<close>

definition align_within ::
  "'b mi_base \<Rightarrow> mi_config \<Rightarrow> size_t \<Rightarrow> size_t \<Rightarrow> size_t \<Rightarrow> bool \<Rightarrow> addr \<Rightarrow> 'b mi_state
     \<Rightarrow> addr \<times> 'b mi_state" where
  "align_within B cfg sz alignment offset zero p s =
     (let align_mask = alignment - 1;
          poffset = (p + offset) AND align_mask;
          adjust = (if poffset = 0 then 0 else alignment - poffset);
          aligned_p = p + adjust;
          s1 = (if aligned_p \<noteq> p then mi_page_set_has_aligned B p s else s);
          s2 = (if zero \<and> alignment > MI_ALIGNMENT_MAX cfg then
                  (let diff = aligned_p - p;
                       zsize0 = mi_page_usable_block_size B p s1 - diff - MI_PADDING_SIZE cfg;
                       zsize = (if MI_PADDING cfg then zsize0 - MI_MAX_ALIGN_SIZE cfg else zsize0)
                   in if 0 < sint zsize then mi_memzero aligned_p zsize s1 else s1)
                else s1)
      in (aligned_p, s2))"

definition mi_heap_malloc_zero_aligned_at_fallback ::
  "'b mi_base \<Rightarrow> mi_config \<Rightarrow> addr \<Rightarrow> size_t \<Rightarrow> size_t \<Rightarrow> size_t \<Rightarrow> bool \<Rightarrow> 'b mi_state
     \<Rightarrow> addr \<times> 'b mi_state" where
  "mi_heap_malloc_zero_aligned_at_fallback B cfg heap sz alignment offset zero s =
     (let align_mask = alignment - 1;
          padsize = sz + MI_PADDING_SIZE cfg
      in if offset = 0 \<and> alignment \<le> padsize \<and> padsize \<le> MI_MEDIUM_OBJ_SIZE_MAX cfg
            \<and> padsize AND align_mask = 0
         then mi_heap_malloc_zero B heap sz zero s
         else if alignment > MI_ALIGNMENT_MAX cfg then
           (if offset \<noteq> 0 then (0, s)
            else
              (let oversize = (if sz \<le> MI_SMALL_SIZE_MAX cfg then MI_SMALL_SIZE_MAX cfg + 1 else sz);
                   (p, s1) = mi_heap_malloc_zero_ex B heap oversize False alignment s
               in if p = 0 then (0, s1)
                  else align_within B cfg sz alignment offset zero p s1))
         else
           (let oversize = sz + alignment - 1;
                (p, s1) = mi_heap_malloc_zero B heap oversize zero s
            in if p = 0 then (0, s1)
               else align_within B cfg sz alignment offset zero p s1))"

definition mi_heap_malloc_zero_aligned_at ::
  "'b mi_base \<Rightarrow> mi_config \<Rightarrow> addr \<Rightarrow> size_t \<Rightarrow> size_t \<Rightarrow> size_t \<Rightarrow> bool \<Rightarrow> 'b mi_state
     \<Rightarrow> addr \<times> 'b mi_state" where
  "mi_heap_malloc_zero_aligned_at B cfg heap sz alignment offset zero s =
     (if alignment = 0 \<or> \<not> mi_is_power_of_two cfg alignment then (0, s)
      else if sz > PTRDIFF_MAX then (0, s)
      else
        (let align_mask = alignment - 1;
             padsize = sz + MI_PADDING_SIZE cfg
         in if padsize \<le> MI_SMALL_SIZE_MAX cfg \<and> alignment \<le> padsize then
              (let (free, s1) = mi_heap_get_free_small_page B heap padsize s;
                   is_aligned = ((free + offset) AND align_mask = 0)
               in if free \<noteq> 0 \<and> is_aligned then mi_page_malloc B heap padsize zero s1
                  else mi_heap_malloc_zero_aligned_at_fallback B cfg heap sz alignment offset zero s1)
            else mi_heap_malloc_zero_aligned_at_fallback B cfg heap sz alignment offset zero s))"

definition mi_heap_malloc_aligned_at ::
  "'b mi_base \<Rightarrow> mi_config \<Rightarrow> addr \<Rightarrow> size_t \<Rightarrow> size_t \<Rightarrow> size_t \<Rightarrow> 'b mi_state
     \<Rightarrow> addr \<times> 'b mi_state" where
  "mi_heap_malloc_aligned_at B cfg heap sz alignment offset s =
     mi_heap_malloc_zero_aligned_at B cfg heap sz alignment offset False s"

definition mi_heap_malloc_aligned ::
  "'b mi_base \<Rightarrow> mi_config \<Rightarrow> addr \<Rightarrow> size_t \<Rightarrow> size_t \<Rightarrow> 'b mi_state \<Rightarrow> addr \<times> 'b mi_state" where
  "mi_heap_malloc_aligned B cfg heap sz alignment s =
     (if \<not> MI_PADDING cfg then
        (if \<not> mi_is_power_of_two cfg alignment then (0, s)
         else if mi_is_power_of_two cfg sz \<and> sz \<ge> alignment \<and> sz \<le> MI_SMALL_SIZE_MAX cfg
         then mi_heap_malloc_small B heap sz s
         else mi_heap_malloc_aligned_at B cfg heap sz alignment 0 s)
      else
        (if (alignment = sizeof_voidp
               \<or> (alignment = MI_MAX_ALIGN_SIZE cfg \<and> sz > MI_MAX_ALIGN_SIZE cfg div 2))
              \<and> sz \<le> MI_SMALL_SIZE_MAX cfg
         then mi_heap_malloc_small B heap sz s
         else mi_heap_malloc_aligned_at B cfg heap sz alignment 0 s))"

definition mi_heap_zalloc_aligned_at ::
  "'b mi_base \<Rightarrow> mi_config \<Rightarrow> addr \<Rightarrow> size_t \<Rightarrow> size_t \<Rightarrow> size_t \<Rightarrow> 'b mi_state
     \<Rightarrow> addr \<times> 'b mi_state" where
  "mi_heap_zalloc_aligned_at B cfg heap sz alignment offset s =
     mi_heap_malloc_zero_aligned_at B cfg heap sz alignment offset True s"

definition mi_heap_zalloc_aligned ::
  "'b mi_base \<Rightarrow> mi_config \<Rightarrow> addr \<Rightarrow> size_t \<Rightarrow> size_t \<Rightarrow> 'b mi_state \<Rightarrow> addr \<times> 'b mi_state" where
  "mi_heap_zalloc_aligned B cfg heap sz alignment s =
     mi_heap_zalloc_aligned_at B cfg heap sz alignment 0 s"

text \<open>
  Modelled from the spec: \<^verbatim>\<open>mi_count_size_overflow(count, size, &total)\<close> is declared
  in \<^verbatim>\<open>mimalloc-internal.h\<close>, which is not part of the source at hand. The spec calls
  the counted variants overflow-checked on \<^verbatim>\<open>count * elem_size\<close>: the helper reports
  whether the product exceeds the 64-bit size representation, and yields the product
  when it does not.
\<close>

definition mi_count_size_overflow :: "size_t \<Rightarrow> size_t \<Rightarrow> bool \<times> size_t" where
  "mi_count_size_overflow count sz =
     (if unat count * unat sz \<ge> 2 ^ 64 then (True, - 1) else (False, count * sz))"

definition mi_heap_calloc_aligned_at ::
  "'b mi_base \<Rightarrow> mi_config \<Rightarrow> addr \<Rightarrow> size_t \<Rightarrow> size_t \<Rightarrow> size_t \<Rightarrow> size_t \<Rightarrow> 'b mi_state
     \<Rightarrow> addr \<times> 'b mi_state" where
  "mi_heap_calloc_aligned_at B cfg heap count sz alignment offset s =
     (let (overflow, total) = mi_count_size_overflow count sz
      in if overflow then (0, s)
         else mi_heap_zalloc_aligned_at B cfg heap total alignment offset s)"

definition mi_heap_calloc_aligned ::
  "'b mi_base \<Rightarrow> mi_config \<Rightarrow> addr \<Rightarrow> size_t \<Rightarrow> size_t \<Rightarrow> size_t \<Rightarrow> 'b mi_state
     \<Rightarrow> addr \<times> 'b mi_state" where
  "mi_heap_calloc_aligned B cfg heap count sz alignment s =
     mi_heap_calloc_aligned_at B cfg heap count sz alignment 0 s"

definition mi_malloc_aligned_at ::
  "'b mi_base \<Rightarrow> mi_config \<Rightarrow> size_t \<Rightarrow> size_t \<Rightarrow> size_t \<Rightarrow> 'b mi_state \<Rightarrow> addr \<times> 'b mi_state" where
  "mi_malloc_aligned_at B cfg sz alignment offset s =
     mi_heap_malloc_aligned_at B cfg (mi_get_default_heap B s) sz alignment offset s"

definition mi_malloc_aligned ::
  "'b mi_base \<Rightarrow> mi_config \<Rightarrow> size_t \<Rightarrow> size_t \<Rightarrow> 'b mi_state \<Rightarrow> addr \<times> 'b mi_state" where
  "mi_malloc_aligned B cfg sz alignment s =
     mi_heap_malloc_aligned B cfg (mi_get_default_heap B s) sz alignment s"

definition mi_zalloc_aligned_at ::
  "'b mi_base \<Rightarrow> mi_config \<Rightarrow> size_t \<Rightarrow> size_t \<Rightarrow> size_t \<Rightarrow> 'b mi_state \<Rightarrow> addr \<times> 'b mi_state" where
  "mi_zalloc_aligned_at B cfg sz alignment offset s =
     mi_heap_zalloc_aligned_at B cfg (mi_get_default_heap B s) sz alignment offset s"

definition mi_zalloc_aligned ::
  "'b mi_base \<Rightarrow> mi_config \<Rightarrow> size_t \<Rightarrow> size_t \<Rightarrow> 'b mi_state \<Rightarrow> addr \<times> 'b mi_state" where
  "mi_zalloc_aligned B cfg sz alignment s =
     mi_heap_zalloc_aligned B cfg (mi_get_default_heap B s) sz alignment s"

definition mi_calloc_aligned_at ::
  "'b mi_base \<Rightarrow> mi_config \<Rightarrow> size_t \<Rightarrow> size_t \<Rightarrow> size_t \<Rightarrow> size_t \<Rightarrow> 'b mi_state
     \<Rightarrow> addr \<times> 'b mi_state" where
  "mi_calloc_aligned_at B cfg count sz alignment offset s =
     mi_heap_calloc_aligned_at B cfg (mi_get_default_heap B s) count sz alignment offset s"

definition mi_calloc_aligned ::
  "'b mi_base \<Rightarrow> mi_config \<Rightarrow> size_t \<Rightarrow> size_t \<Rightarrow> size_t \<Rightarrow> 'b mi_state \<Rightarrow> addr \<times> 'b mi_state" where
  "mi_calloc_aligned B cfg count sz alignment s =
     mi_heap_calloc_aligned B cfg (mi_get_default_heap B s) count sz alignment s"

section \<open>Aligned re-allocation\<close>

text \<open>
  The relocation branch of \<^verbatim>\<open>mi_heap_realloc_zero_aligned_at\<close> (lines 243 to 260);
  \<open>sz\<close> is the usable size of \<open>p\<close> read at line 237. \<open>realloc_zero_tail\<close> is the
  zeroing step of lines 245 to 256.
\<close>

definition realloc_zero_tail ::
  "'b mi_base \<Rightarrow> addr \<Rightarrow> size_t \<Rightarrow> size_t \<Rightarrow> bool \<Rightarrow> 'b mi_state \<Rightarrow> 'b mi_state" where
  "realloc_zero_tail B newp newsize sz zero s =
     (if zero \<and> newsize > sz then
        (if mi_page_is_zero B newp s then s
         else
           (let start = (if sz \<ge> sizeof_intptr_t then sz - sizeof_intptr_t else 0)
            in memset (newp + start) 0 (newsize - start) s))
      else s)"

definition realloc_relocate ::
  "'b mi_base \<Rightarrow> mi_config \<Rightarrow> addr \<Rightarrow> addr \<Rightarrow> size_t \<Rightarrow> size_t \<Rightarrow> size_t \<Rightarrow> bool \<Rightarrow> size_t
     \<Rightarrow> 'b mi_state \<Rightarrow> addr \<times> 'b mi_state" where
  "realloc_relocate B cfg heap p newsize alignment offset zero sz s =
     (let (newp, s1) = mi_heap_malloc_aligned_at B cfg heap newsize alignment offset s
      in if newp \<noteq> 0 then
           (let s2 = realloc_zero_tail B newp newsize sz zero s1;
                s3 = mi_memcpy_aligned newp p (if newsize > sz then sz else newsize) s2;
                s4 = mi_free B p s3
            in (newp, s4))
         else (newp, s1))"

definition mi_heap_realloc_zero_aligned_at ::
  "'b mi_base \<Rightarrow> mi_config \<Rightarrow> addr \<Rightarrow> addr \<Rightarrow> size_t \<Rightarrow> size_t \<Rightarrow> size_t \<Rightarrow> bool \<Rightarrow> 'b mi_state
     \<Rightarrow> addr \<times> 'b mi_state" where
  "mi_heap_realloc_zero_aligned_at B cfg heap p newsize alignment offset zero s =
     (if alignment \<le> sizeof_uintptr_t then mi_heap_realloc_zero B heap p newsize zero s
      else if p = 0 then mi_heap_malloc_zero_aligned_at B cfg heap newsize alignment offset zero s
      else
        (let sz = mi_usable_size B p s
         in if newsize \<le> sz \<and> newsize \<ge> sz - sz div 2 \<and> (p + offset) mod alignment = 0
            then (p, s)
            else realloc_relocate B cfg heap p newsize alignment offset zero sz s))"

definition mi_heap_realloc_zero_aligned ::
  "'b mi_base \<Rightarrow> mi_config \<Rightarrow> addr \<Rightarrow> addr \<Rightarrow> size_t \<Rightarrow> size_t \<Rightarrow> bool \<Rightarrow> 'b mi_state
     \<Rightarrow> addr \<times> 'b mi_state" where
  "mi_heap_realloc_zero_aligned B cfg heap p newsize alignment zero s =
     (if alignment \<le> sizeof_uintptr_t then mi_heap_realloc_zero B heap p newsize zero s
      else
        (let offset = p mod alignment
         in mi_heap_realloc_zero_aligned_at B cfg heap p newsize alignment offset zero s))"

definition mi_heap_realloc_aligned_at ::
  "'b mi_base \<Rightarrow> mi_config \<Rightarrow> addr \<Rightarrow> addr \<Rightarrow> size_t \<Rightarrow> size_t \<Rightarrow> size_t \<Rightarrow> 'b mi_state
     \<Rightarrow> addr \<times> 'b mi_state" where
  "mi_heap_realloc_aligned_at B cfg heap p newsize alignment offset s =
     mi_heap_realloc_zero_aligned_at B cfg heap p newsize alignment offset False s"

definition mi_heap_realloc_aligned ::
  "'b mi_base \<Rightarrow> mi_config \<Rightarrow> addr \<Rightarrow> addr \<Rightarrow> size_t \<Rightarrow> size_t \<Rightarrow> 'b mi_state
     \<Rightarrow> addr \<times> 'b mi_state" where
  "mi_heap_realloc_aligned B cfg heap p newsize alignment s =
     mi_heap_realloc_zero_aligned B cfg heap p newsize alignment False s"

definition mi_heap_rezalloc_aligned_at ::
  "'b mi_base \<Rightarrow> mi_config \<Rightarrow> addr \<Rightarrow> addr \<Rightarrow> size_t \<Rightarrow> size_t \<Rightarrow> size_t \<Rightarrow> 'b mi_state
     \<Rightarrow> addr \<times> 'b mi_state" where
  "mi_heap_rezalloc_aligned_at B cfg heap p newsize alignment offset s =
     mi_heap_realloc_zero_aligned_at B cfg heap p newsize alignment offset True s"

definition mi_heap_rezalloc_aligned ::
  "'b mi_base \<Rightarrow> mi_config \<Rightarrow> addr \<Rightarrow> addr \<Rightarrow> size_t \<Rightarrow> size_t \<Rightarrow> 'b mi_state
     \<Rightarrow> addr \<times> 'b mi_state" where
  "mi_heap_rezalloc_aligned B cfg heap p newsize alignment s =
     mi_heap_realloc_zero_aligned B cfg heap p newsize alignment True s"

definition mi_heap_recalloc_aligned_at ::
  "'b mi_base \<Rightarrow> mi_config \<Rightarrow> addr \<Rightarrow> addr \<Rightarrow> size_t \<Rightarrow> size_t \<Rightarrow> size_t \<Rightarrow> size_t \<Rightarrow> 'b mi_state
     \<Rightarrow> addr \<times> 'b mi_state" where
  "mi_heap_recalloc_aligned_at B cfg heap p newcount sz alignment offset s =
     (let (overflow, total) = mi_count_size_overflow newcount sz
      in if overflow then (0, s)
         else mi_heap_rezalloc_aligned_at B cfg heap p total alignment offset s)"

definition mi_heap_recalloc_aligned ::
  "'b mi_base \<Rightarrow> mi_config \<Rightarrow> addr \<Rightarrow> addr \<Rightarrow> size_t \<Rightarrow> size_t \<Rightarrow> size_t \<Rightarrow> 'b mi_state
     \<Rightarrow> addr \<times> 'b mi_state" where
  "mi_heap_recalloc_aligned B cfg heap p newcount sz alignment s =
     (let (overflow, total) = mi_count_size_overflow newcount sz
      in if overflow then (0, s)
         else mi_heap_rezalloc_aligned B cfg heap p total alignment s)"

definition mi_realloc_aligned_at ::
  "'b mi_base \<Rightarrow> mi_config \<Rightarrow> addr \<Rightarrow> size_t \<Rightarrow> size_t \<Rightarrow> size_t \<Rightarrow> 'b mi_state
     \<Rightarrow> addr \<times> 'b mi_state" where
  "mi_realloc_aligned_at B cfg p newsize alignment offset s =
     mi_heap_realloc_aligned_at B cfg (mi_get_default_heap B s) p newsize alignment offset s"

definition mi_realloc_aligned ::
  "'b mi_base \<Rightarrow> mi_config \<Rightarrow> addr \<Rightarrow> size_t \<Rightarrow> size_t \<Rightarrow> 'b mi_state \<Rightarrow> addr \<times> 'b mi_state" where
  "mi_realloc_aligned B cfg p newsize alignment s =
     mi_heap_realloc_aligned B cfg (mi_get_default_heap B s) p newsize alignment s"

definition mi_rezalloc_aligned_at ::
  "'b mi_base \<Rightarrow> mi_config \<Rightarrow> addr \<Rightarrow> size_t \<Rightarrow> size_t \<Rightarrow> size_t \<Rightarrow> 'b mi_state
     \<Rightarrow> addr \<times> 'b mi_state" where
  "mi_rezalloc_aligned_at B cfg p newsize alignment offset s =
     mi_heap_rezalloc_aligned_at B cfg (mi_get_default_heap B s) p newsize alignment offset s"

definition mi_rezalloc_aligned ::
  "'b mi_base \<Rightarrow> mi_config \<Rightarrow> addr \<Rightarrow> size_t \<Rightarrow> size_t \<Rightarrow> 'b mi_state \<Rightarrow> addr \<times> 'b mi_state" where
  "mi_rezalloc_aligned B cfg p newsize alignment s =
     mi_heap_rezalloc_aligned B cfg (mi_get_default_heap B s) p newsize alignment s"

definition mi_recalloc_aligned_at ::
  "'b mi_base \<Rightarrow> mi_config \<Rightarrow> addr \<Rightarrow> size_t \<Rightarrow> size_t \<Rightarrow> size_t \<Rightarrow> size_t \<Rightarrow> 'b mi_state
     \<Rightarrow> addr \<times> 'b mi_state" where
  "mi_recalloc_aligned_at B cfg p newcount sz alignment offset s =
     mi_heap_recalloc_aligned_at B cfg (mi_get_default_heap B s) p newcount sz alignment offset s"

definition mi_recalloc_aligned ::
  "'b mi_base \<Rightarrow> mi_config \<Rightarrow> addr \<Rightarrow> size_t \<Rightarrow> size_t \<Rightarrow> size_t \<Rightarrow> 'b mi_state
     \<Rightarrow> addr \<times> 'b mi_state" where
  "mi_recalloc_aligned B cfg p newcount sz alignment s =
     mi_heap_recalloc_aligned B cfg (mi_get_default_heap B s) p newcount sz alignment s"

section \<open>What the calls of an operation do\<close>

text \<open>
  The calls that release a block or store into memory: \<^verbatim>\<open>mi_free\<close>, the three
  memory writes, and the resize primitive (which frees and copies on its own).
\<close>

fun touches_block :: "event \<Rightarrow> bool" where
  "touches_block (EvFree p) = True"
| "touches_block (EvMemzero p n) = True"
| "touches_block (EvMemset p c n) = True"
| "touches_block (EvMemcpy d p n) = True"
| "touches_block (EvHeapReallocZero h p n z) = True"
| "touches_block e = False"

text \<open>
  \<open>appended P s s'\<close>: the calls of \<open>s'\<close> are those of \<open>s\<close> followed by calls that all
  satisfy \<open>P\<close>.
\<close>

definition appended :: "(event \<Rightarrow> bool) \<Rightarrow> 'b mi_state \<Rightarrow> 'b mi_state \<Rightarrow> bool" where
  "appended P s s' \<longleftrightarrow> (\<exists>es. calls s' = calls s @ es \<and> list_all P es)"

text \<open>
  The alignment property in the words of the specification: the address plus the offset
  is a multiple of the alignment, as numbers. \<open>zero_filled s r n\<close>: the \<open>n\<close> bytes from
  \<open>r\<close> on read as zero in state \<open>s\<close>.
\<close>

definition aligned_at :: "size_t \<Rightarrow> size_t \<Rightarrow> addr \<Rightarrow> bool" where
  "aligned_at alignment offset r \<longleftrightarrow> (unat r + unat offset) mod unat alignment = 0"

definition zero_filled :: "'b mi_state \<Rightarrow> addr \<Rightarrow> size_t \<Rightarrow> bool" where
  "zero_filled s r n \<longleftrightarrow> (\<forall>i. i < n \<longrightarrow> mem (world s) (r + i) = 0)"

text \<open>
  The constants of the configuration are sizes of objects: each is at most
  \<open>PTRDIFF_MAX\<close>, so that a valid size plus the padding, or plus an alignment that is
  not huge, does not wrap around.
\<close>

definition config_sizes_fit :: "mi_config \<Rightarrow> bool" where
  "config_sizes_fit cfg \<longleftrightarrow>
     MI_PADDING_SIZE cfg \<le> PTRDIFF_MAX \<and> MI_SMALL_SIZE_MAX cfg < PTRDIFF_MAX
     \<and> MI_ALIGNMENT_MAX cfg \<le> PTRDIFF_MAX"

section \<open>What the operations expect of the base allocator\<close>

text \<open>
  \<open>align_gap a p\<close> is the adjustment of lines 59 and 60 at offset 0: the distance from
  \<open>p\<close> up to the next address whose low bits under the mask \<open>a - 1\<close> are clear.
\<close>

definition align_gap :: "size_t \<Rightarrow> addr \<Rightarrow> size_t" where
  "align_gap a p = (if p AND (a - 1) = 0 then 0 else a - (p AND (a - 1)))"

text \<open>
  The alignment that the source takes from the base allocator, each a fact that the
  source asserts or states in a comment:
  \<^item> line 29: a block of \<open>sz\<close> bytes whose padded size is at most
    \<open>MI_MEDIUM_OBJ_SIZE_MAX\<close> and a multiple of the power of two \<open>2 ^ k\<close> lies at a
    multiple of \<open>2 ^ k\<close> (or is \<^verbatim>\<open>NULL\<close>);
  \<^item> lines 130 to 132: \<^verbatim>\<open>_mi_page_malloc\<close> hands out the free block of the page, which
    line 124 has just inspected;
  \<^item> lines 152 and 156: with padding, a small block is aligned to \<^verbatim>\<open>sizeof(void*)\<close>,
    and to \<open>MI_MAX_ALIGN_SIZE\<close> when it is larger than half of that; without padding,
    a small block of a power-of-two size is aligned to every power of two up to its size.
\<close>

definition base_aligns :: "'b mi_base \<Rightarrow> mi_config \<Rightarrow> bool" where
  "base_aligns B cfg \<longleftrightarrow>
     (\<forall>heap sz zero w k. k < 64 \<longrightarrow> 2 ^ k \<le> sz + MI_PADDING_SIZE cfg
         \<longrightarrow> sz + MI_PADDING_SIZE cfg \<le> MI_MEDIUM_OBJ_SIZE_MAX cfg
         \<longrightarrow> (sz + MI_PADDING_SIZE cfg) AND (2 ^ k - 1) = 0
         \<longrightarrow> fst (b_heap_malloc_zero B heap sz zero w) AND (2 ^ k - 1) = 0)
     \<and> (\<forall>heap n zero w. b_page_free B heap n w \<noteq> 0
         \<longrightarrow> fst (b_page_malloc B heap n zero w) = b_page_free B heap n w)
     \<and> (\<forall>heap sz w k. sz \<le> MI_SMALL_SIZE_MAX cfg \<longrightarrow> k < 64 \<longrightarrow>
           (if MI_PADDING cfg
            then (2 ^ k = sizeof_voidp
                    \<or> (2 ^ k = MI_MAX_ALIGN_SIZE cfg \<and> sz > MI_MAX_ALIGN_SIZE cfg div 2))
                 \<longrightarrow> fst (b_heap_malloc_small B heap sz w) AND (2 ^ k - 1) = 0
            else mi_is_power_of_two cfg sz \<longrightarrow> 2 ^ k \<le> sz
                 \<longrightarrow> fst (b_heap_malloc_small B heap sz w) AND (2 ^ k - 1) = 0))"

text \<open>
  The zero-filling that the source takes from the base allocator:
  \<^item> a block asked for with \<^verbatim>\<open>zero = true\<close> reads as zero over the bytes asked for;
  \<^item> \<^verbatim>\<open>_mi_page_malloc\<close> is asked for the padded size and zeroes the bytes before the
    padding;
  \<^item> flagging a page (line 64) leaves the usable block sizes as they are.
\<close>

definition base_zeroes :: "'b mi_base \<Rightarrow> mi_config \<Rightarrow> bool" where
  "base_zeroes B cfg \<longleftrightarrow>
     (\<forall>heap n w i. fst (b_heap_malloc_zero B heap n True w) \<noteq> 0 \<longrightarrow> i < n
         \<longrightarrow> mem (snd (b_heap_malloc_zero B heap n True w))
               (fst (b_heap_malloc_zero B heap n True w) + i) = 0)
     \<and> (\<forall>heap n w i. fst (b_page_malloc B heap n True w) \<noteq> 0 \<longrightarrow> MI_PADDING_SIZE cfg \<le> n
         \<longrightarrow> i < n - MI_PADDING_SIZE cfg
         \<longrightarrow> mem (snd (b_page_malloc B heap n True w))
               (fst (b_page_malloc B heap n True w) + i) = 0)
     \<and> (\<forall>p q w. b_page_usable_block_size B p (w\<lparr>priv := b_page_set_has_aligned B q (priv w)\<rparr>)
           = b_page_usable_block_size B p w)"

text \<open>
  \<open>huge_block_room B cfg heap sz alignment w\<close> is about one request, of \<open>sz\<close> bytes at
  \<open>alignment\<close> in the world \<open>w\<close>. When the alignment is above \<open>MI_ALIGNMENT_MAX\<close> and
  line 47 obtains a block, the usable size of that block is at most \<open>PTRDIFF_MAX\<close> and
  holds, behind the adjustment, the \<open>sz\<close> bytes asked for and what lines 74 to 76
  subtract (the padding, and \<open>MI_MAX_ALIGN_SIZE\<close> with padding). The assertion of
  line 67 is the same without the last two summands.
\<close>

definition huge_block_room ::
  "'b mi_base \<Rightarrow> mi_config \<Rightarrow> addr \<Rightarrow> size_t \<Rightarrow> size_t \<Rightarrow> 'b mi_world \<Rightarrow> bool" where
  "huge_block_room B cfg heap sz alignment w \<longleftrightarrow>
     (MI_ALIGNMENT_MAX cfg < alignment \<longrightarrow>
        (let oversize = (if sz \<le> MI_SMALL_SIZE_MAX cfg then MI_SMALL_SIZE_MAX cfg + 1 else sz);
             p = fst (b_heap_malloc_zero_ex B heap oversize False alignment w);
             usable = b_page_usable_block_size B p
                        (snd (b_heap_malloc_zero_ex B heap oversize False alignment w))
         in p \<noteq> 0 \<longrightarrow>
              unat (align_gap alignment p) + unat sz + unat (MI_PADDING_SIZE cfg)
                 + (if MI_PADDING cfg then unat (MI_MAX_ALIGN_SIZE cfg) else 0) \<le> unat usable
              \<and> usable \<le> PTRDIFF_MAX))"

text \<open>
  \<^verbatim>\<open>_mi_is_power_of_two\<close> accepts nothing but powers of two and, possibly, 0: the
  source tests \<^verbatim>\<open>alignment == 0\<close> on its own wherever it validates an alignment for
  the primitive allocator (lines 21 and 98).
\<close>

definition pow2_helper_sound :: "mi_config \<Rightarrow> bool" where
  "pow2_helper_sound cfg \<longleftrightarrow>
     (\<forall>x. mi_is_power_of_two cfg x \<longrightarrow> x = 0 \<or> (\<exists>k<64. x = 2 ^ k))"

section \<open>Sample configurations and a sample base allocator\<close>

text \<open>
  Two configurations for a 64-bit build, without and with padding; their power-of-two
  test is the bit trick \<^verbatim>\<open>(x & (x - 1)) == 0\<close>, which holds for 0 as well.
\<close>

definition release_config :: mi_config where
  "release_config =
     \<lparr>MI_PADDING = False, MI_PADDING_SIZE = 0, MI_MAX_ALIGN_SIZE = 16,
      MI_SMALL_SIZE_MAX = 1024, MI_MEDIUM_OBJ_SIZE_MAX = 0x20000, MI_ALIGNMENT_MAX = 0x1000000,
      mi_is_power_of_two = (\<lambda>x. x AND (x - 1) = 0)\<rparr>"

definition debug_config :: mi_config where
  "debug_config =
     \<lparr>MI_PADDING = True, MI_PADDING_SIZE = 8, MI_MAX_ALIGN_SIZE = 16,
      MI_SMALL_SIZE_MAX = 1024, MI_MEDIUM_OBJ_SIZE_MAX = 0x20000, MI_ALIGNMENT_MAX = 0x1000000,
      mi_is_power_of_two = (\<lambda>x. x AND (x - 1) = 0)\<rparr>"

text \<open>
  A base allocator simple enough to run by hand: the address space is cut into slots of
  4 GiB, and every block gets a slot of its own, starting \<open>lead\<close> bytes into the slot.
  It keeps one free small block (\<open>small_free\<close>, 0 when there is none), the usable size
  of every block, and the list of pages flagged as holding aligned blocks. A block for
  the huge-alignment path starts 64 bytes into its slot and has room for the alignment.
\<close>

record slots =
  next_slot :: nat
  small_free :: addr
  block_size :: "addr \<Rightarrow> size_t"
  aligned_flags :: "addr list"

definition slot_alloc :: "size_t \<Rightarrow> size_t \<Rightarrow> bool \<Rightarrow> slots mi_world \<Rightarrow> addr \<times> slots mi_world" where
  "slot_alloc lead n z w =
     (let t = priv w; p = push_bit 32 (of_nat (next_slot t)) + lead
      in if n > 0x80000000 \<or> next_slot t = 0 \<or> next_slot t \<ge> 2 ^ 31 then (0, w)
         else (p, \<lparr>mem = (if z then fill (mem w) p n 0 else mem w),
                   priv = t\<lparr>next_slot := next_slot t + 1, block_size := (block_size t)(p := n)\<rparr>\<rparr>))"

definition slot_base :: "slots mi_base" where
  "slot_base =
     \<lparr>b_heap_malloc_zero = (\<lambda>heap n z w. slot_alloc 0 n z w),
      b_heap_malloc_zero_ex = (\<lambda>heap n z a w.
         if n > 0x20000000 \<or> a > 0x20000000 then (0, w) else slot_alloc 64 (n + a + 64) z w),
      b_heap_malloc_small = (\<lambda>heap n w. slot_alloc 0 n False w),
      b_heap_realloc_zero = (\<lambda>heap p n z w.
         (let (q, w1) = slot_alloc 0 n z w
          in if q = 0 then (0, w1)
             else (q, w1\<lparr>mem := copy (mem w1) q p (min n (block_size (priv w) p)),
                         priv := (priv w1)\<lparr>block_size := (block_size (priv w1))(p := 0)\<rparr>\<rparr>))),
      b_page_free = (\<lambda>heap n w. small_free (priv w)),
      b_page_malloc = (\<lambda>heap n z w.
         (let t = priv w; p = small_free t
          in (p, \<lparr>mem = (if z then fill (mem w) p n 0 else mem w),
                  priv = t\<lparr>small_free := 0, block_size := (block_size t)(p := n)\<rparr>\<rparr>))),
      b_page_set_has_aligned = (\<lambda>p t. t\<lparr>aligned_flags := p # aligned_flags t\<rparr>),
      b_page_usable_block_size = (\<lambda>p w. block_size (priv w) p),
      b_page_is_zero = (\<lambda>p w. False),
      b_usable_size = (\<lambda>p w. block_size (priv w) p),
      b_free = (\<lambda>p w. w\<lparr>priv := (priv w)\<lparr>block_size := (block_size (priv w))(p := 0)\<rparr>\<rparr>),
      b_get_default_heap = (\<lambda>w. 0x1000)\<rparr>"

text \<open>
  The same allocator with a tight block on the huge-alignment path: its usable size is
  the distance to the aligned address plus the bytes asked for, which is the least that
  the assertion of line 67 allows.
\<close>

definition tight_base :: "slots mi_base" where
  "tight_base =
     slot_base\<lparr>b_heap_malloc_zero_ex := (\<lambda>heap n z a w.
        if n > 0x20000000 \<or> a > 0x20000000 then (0, w)
        else slot_alloc 64 (align_gap a (push_bit 32 (of_nat (next_slot (priv w))) + 64) + n) z w)\<rparr>"

text \<open>
  Two states: \<open>fresh\<close> has no block; \<open>busy\<close> has a live block of 48 usable bytes at
  \<open>0x100000008\<close> (8 modulo 32) and a free small block at \<open>0x200000040\<close>. Memory holds
  the byte \<open>0xAA\<close> everywhere.
\<close>

definition fresh :: "slots mi_state" where
  "fresh =
     \<lparr>world = \<lparr>mem = (\<lambda>a. 0xAA),
               priv = \<lparr>next_slot = 1, small_free = 0, block_size = (\<lambda>a. 0), aligned_flags = []\<rparr>\<rparr>,
      calls = []\<rparr>"

definition busy :: "slots mi_state" where
  "busy =
     \<lparr>world = \<lparr>mem = (\<lambda>a. 0xAA),
               priv = \<lparr>next_slot = 3, small_free = 0x200000040,
                       block_size = (\<lambda>a. 0)(0x100000008 := 48), aligned_flags = []\<rparr>\<rparr>,
      calls = []\<rparr>"

section \<open>Basic facts\<close>

lemmas call_defs =
  mi_heap_malloc_zero_def mi_heap_malloc_zero_ex_def mi_heap_malloc_small_def
  mi_heap_realloc_zero_def mi_heap_get_free_small_page_def mi_page_malloc_def
  mi_page_set_has_aligned_def mi_free_def mi_usable_size_def mi_page_usable_block_size_def
  mi_page_is_zero_def mi_get_default_heap_def record_call_def mi_memzero_def memset_def
  mi_memcpy_aligned_def

lemmas sample_defs =
  release_config_def debug_config_def slot_base_def slot_alloc_def fresh_def busy_def
  PTRDIFF_MAX_def sizeof_uintptr_t_def sizeof_intptr_t_def sizeof_voidp_def fill_def copy_def

lemmas aligned_alloc_defs =
  mi_heap_malloc_zero_aligned_at_def mi_heap_malloc_zero_aligned_at_fallback_def align_within_def

lemmas realloc_defs =
  mi_heap_realloc_zero_aligned_at_def mi_heap_realloc_zero_aligned_def realloc_relocate_def
  realloc_zero_tail_def mi_heap_malloc_aligned_at_def

lemmas entry_defs =
  mi_heap_malloc_aligned_at_def mi_heap_malloc_aligned_def mi_heap_zalloc_aligned_at_def
  mi_heap_zalloc_aligned_def mi_heap_calloc_aligned_at_def mi_heap_calloc_aligned_def
  mi_malloc_aligned_at_def mi_malloc_aligned_def mi_zalloc_aligned_at_def mi_zalloc_aligned_def
  mi_calloc_aligned_at_def mi_calloc_aligned_def mi_count_size_overflow_def

lemma record_call_calls: "calls (record_call e s) = calls s @ [e]"
  by (simp add: record_call_def)

subsection \<open>The calls of an aligned allocation\<close>

text \<open>
  An aligned allocation that is not asked to zero makes no call that frees a block or
  writes to memory: it asks the base allocator for blocks and may flag a page.
\<close>

lemma appended_refl: "appended P s s"
  by (simp add: appended_def)

lemma appended_trans: "appended P s s1 \<Longrightarrow> appended P s1 s2 \<Longrightarrow> appended P s s2"
  by (auto simp add: appended_def)

lemma appended_record: "P e \<Longrightarrow> calls s' = calls s \<Longrightarrow> appended P s (record_call e s')"
  by (simp add: appended_def record_call_def)

lemma appended_heap_malloc_zero:
  "P (EvHeapMallocZero heap n z) \<Longrightarrow> appended P s (snd (mi_heap_malloc_zero B heap n z s))"
  by (simp add: mi_heap_malloc_zero_def appended_record split: prod.splits)

lemma appended_heap_malloc_zero_ex:
  "P (EvHeapMallocZeroEx heap n z a) \<Longrightarrow> appended P s (snd (mi_heap_malloc_zero_ex B heap n z a s))"
  by (simp add: mi_heap_malloc_zero_ex_def appended_record split: prod.splits)

lemma appended_page_malloc:
  "P (EvPageMalloc heap n z) \<Longrightarrow> appended P s (snd (mi_page_malloc B heap n z s))"
  by (simp add: mi_page_malloc_def appended_record split: prod.splits)

lemma appended_get_free_small_page:
  "P (EvGetFreeSmallPage heap n) \<Longrightarrow> appended P s (snd (mi_heap_get_free_small_page B heap n s))"
  by (simp add: mi_heap_get_free_small_page_def appended_record)

lemma appended_page_set_has_aligned:
  "P (EvPageSetHasAligned p) \<Longrightarrow> appended P s (mi_page_set_has_aligned B p s)"
  by (simp add: mi_page_set_has_aligned_def appended_record)

lemma appended_align_within:
  "appended (\<lambda>e. \<not> touches_block e) s (snd (align_within B cfg sz alignment offset False p s))"
  by (simp add: align_within_def Let_def appended_refl appended_page_set_has_aligned)

lemma appended_fallback:
  "appended (\<lambda>e. \<not> touches_block e) s
     (snd (mi_heap_malloc_zero_aligned_at_fallback B cfg heap sz alignment offset False s))"
proof -
  let ?P = "\<lambda>e. \<not> touches_block e"
  have z: "appended ?P s (snd (mi_heap_malloc_zero B heap n False s))" for n
    by (rule appended_heap_malloc_zero) simp
  have x: "appended ?P s (snd (mi_heap_malloc_zero_ex B heap n False a s))" for n a
    by (rule appended_heap_malloc_zero_ex) simp
  have zz: "appended ?P s (snd (align_within B cfg sz alignment off False q
              (snd (mi_heap_malloc_zero B heap n False s))))" for n q off
    by (rule appended_trans [OF z appended_align_within])
  have xx: "appended ?P s (snd (align_within B cfg sz alignment off False q
              (snd (mi_heap_malloc_zero_ex B heap n False a s))))" for n a q off
    by (rule appended_trans [OF x appended_align_within])
  show ?thesis
    unfolding mi_heap_malloc_zero_aligned_at_fallback_def Let_def case_prod_beta
    by (simp add: appended_refl z x zz xx)
qed

lemma appended_aligned_at:
  "appended (\<lambda>e. \<not> touches_block e) s
     (snd (mi_heap_malloc_zero_aligned_at B cfg heap sz alignment offset False s))"
proof -
  let ?P = "\<lambda>e. \<not> touches_block e"
  let ?n = "sz + MI_PADDING_SIZE cfg"
  obtain free s1 where e: "mi_heap_get_free_small_page B heap ?n s = (free, s1)"
    by fastforce
  have a1: "appended ?P s s1"
    using appended_get_free_small_page [of ?P heap ?n s B] e by simp
  have pm: "appended ?P s (snd (mi_page_malloc B heap ?n False s1))"
    by (rule appended_trans [OF a1]) (rule appended_page_malloc, simp)
  have fb: "appended ?P s
      (snd (mi_heap_malloc_zero_aligned_at_fallback B cfg heap sz alignment offset False s1))"
    by (rule appended_trans [OF a1]) (rule appended_fallback)
  show ?thesis
    unfolding mi_heap_malloc_zero_aligned_at_def Let_def
    using e pm fb appended_fallback [of s B cfg heap sz alignment offset]
    by (simp add: appended_refl)
qed

section \<open>Word arithmetic\<close>

text \<open>
  The bit trick \<^verbatim>\<open>(x & (x - 1)) == 0\<close> holds of 0 and of the powers of two only.
\<close>

lemma nat_pow2_trick:
  fixes n :: nat
  shows "0 < n \<Longrightarrow> n AND (n - 1) = 0 \<Longrightarrow> \<exists>k. n = 2 ^ k"
proof (induction n rule: less_induct)
  case (less n)
  show ?case
  proof (cases "even n")
    case True
    then obtain m where m: "n = 2 * m" by (auto elim: evenE)
    with less.prems have mpos: "0 < m" by simp
    have "n - 1 = 2 * (m - 1) + 1" using m mpos by simp
    then have "n AND (n - 1) = 2 * (m AND (m - 1))"
      using m by (simp add: and_nat_rec [of "2 * m"])
    with less.prems have "m AND (m - 1) = 0" by simp
    moreover have "m < n" using m mpos by simp
    ultimately obtain k where "m = 2 ^ k" using less.IH mpos by blast
    then have "n = 2 ^ Suc k" using m by simp
    then show ?thesis by blast
  next
    case False
    then obtain m where m: "n = 2 * m + 1" by (auto elim: oddE)
    have "(2 * m + 1) AND (2 * m)
            = of_bool (odd (2 * m + 1) \<and> odd (2 * m)) + 2 * (((2 * m + 1) div 2) AND ((2 * m) div 2))"
      by (rule and_nat_rec)
    then have "n AND (n - 1) = 2 * m"
      using m by simp
    with less.prems have "m = 0" by simp
    then have "n = 2 ^ 0" using m by simp
    then show ?thesis by blast
  qed
qed

lemma word_pow2_trick:
  fixes x :: "64 word"
  assumes "x AND (x - 1) = 0"
  shows "x = 0 \<or> (\<exists>k<64. x = 2 ^ k)"
proof (cases "x = 0")
  case True
  then show ?thesis by simp
next
  case False
  then have pos: "0 < unat x" by (simp add: unat_gt_0)
  have "unat (x AND (x - 1)) = unat x AND (unat x - 1)"
    using False by (simp add: unsigned_and_eq unat_minus_one)
  with assms have "unat x AND (unat x - 1) = 0" by simp
  then obtain k where k: "unat x = 2 ^ k" using nat_pow2_trick [OF pos] by blast
  have "unat x < 2 ^ 64" using unsigned_less [of x] by simp
  with k have k64: "k < 64"
    using power_less_imp_less_exp [of "2 :: nat" k 64] by simp
  have "x = word_of_nat (unat x)" by simp
  also have "\<dots> = word_of_nat (2 ^ k)" by (simp only: k)
  also have "\<dots> = 2 ^ k" by simp
  finally have "x = 2 ^ k" .
  with k64 show ?thesis by blast
qed

lemma word_pow2_trick_conv:
  fixes x :: "64 word"
  shows "k < 64 \<Longrightarrow> (2 ^ k :: 64 word) AND (2 ^ k - 1) = 0"
proof -
  have "take_bit k ((2 :: 64 word) ^ k) = 0"
    by (simp add: take_bit_eq_mod)
  then show ?thesis
    by (simp only: take_bit_eq_mask mask_eq_exp_minus_1)
qed

lemma and_pow2_minus_1_eq_mod:
  fixes x :: "64 word"
  shows "x AND (2 ^ k - 1) = x mod 2 ^ k"
  by (simp add: take_bit_eq_mod flip: mask_eq_exp_minus_1 take_bit_eq_mask)

lemma sint_small:
  fixes w :: "64 word"
  assumes "w \<le> 0x7FFFFFFFFFFFFFFF"
  shows "sint w = int (unat w)"
proof -
  have "uint w \<le> uint (0x7FFFFFFFFFFFFFFF :: 64 word)"
    using assms by (simp only: word_le_def)
  moreover have "uint (0x7FFFFFFFFFFFFFFF :: 64 word) = 0x7FFFFFFFFFFFFFFF"
    by simp
  ultimately have lt: "uint w < 2 ^ 63" by simp
  have ge: "- (2 ^ 63) \<le> uint w"
    by (rule order_trans [of _ 0]) simp_all
  have "signed_take_bit 63 (uint w) = uint w"
    using ge lt by (rule signed_take_bit_int_eq_self)
  moreover have "sint w = signed_take_bit (LENGTH(64) - Suc 0) (uint w)"
    by (rule sint_uint)
  ultimately show ?thesis by simp
qed

text \<open>
  The carving of lines 59 to 62: for a power-of-two alignment, the adjusted pointer plus
  the offset has no bit under the mask, in 64-bit arithmetic and hence as numbers.
\<close>

lemma unat_pow2: "k < 64 \<Longrightarrow> unat ((2 :: 64 word) ^ k) = 2 ^ k"
proof -
  assume k: "k < 64"
  have "(2 :: 64 word) ^ k = word_of_nat (2 ^ k)" by simp
  then have "unat ((2 :: 64 word) ^ k) = 2 ^ k mod 2 ^ 64"
    by (simp only: unat_of_nat) simp
  moreover have "(2 :: nat) ^ k < 2 ^ 64"
    using k by (rule power_strict_increasing) simp
  ultimately show ?thesis by simp
qed

lemma carve_word:
  fixes p offset :: "64 word"
  defines "x \<equiv> p + offset"
  shows "(p + (if x AND (2 ^ k - 1) = 0 then 0 else 2 ^ k - (x AND (2 ^ k - 1))) + offset) AND (2 ^ k - 1) = 0"
proof (cases "x AND (2 ^ k - 1) = 0")
  case True
  then show ?thesis by (simp add: x_def)
next
  case False
  let ?t = "take_bit k x"
  have t: "x AND (2 ^ k - 1) = ?t"
    by (simp only: take_bit_eq_mask mask_eq_exp_minus_1)
  have "push_bit k (drop_bit k x) + ?t = x" by (rule bits_ident)
  then have pd: "x - ?t = push_bit k (drop_bit k x)"
    by (metis add_diff_cancel_right')
  have "p + (2 ^ k - ?t) + offset = (x - ?t) + 2 ^ k"
    by (simp add: x_def)
  also have "\<dots> = push_bit k (drop_bit k x) + push_bit k 1"
    by (simp only: pd push_bit_of_1)
  also have "\<dots> = push_bit k (drop_bit k x + 1)"
    by (simp only: push_bit_add)
  finally have "take_bit k (p + (2 ^ k - ?t) + offset) = 0"
    by (simp add: take_bit_push_bit)
  then have "(p + (2 ^ k - ?t) + offset) AND (2 ^ k - 1) = 0"
    by (simp only: take_bit_eq_mask mask_eq_exp_minus_1)
  with False t show ?thesis by simp
qed

lemma masked_zero_nat:
  fixes r offset :: "64 word"
  assumes "k < 64" and "(r + offset) AND (2 ^ k - 1) = 0"
  shows "(unat r + unat offset) mod unat ((2 :: 64 word) ^ k) = 0"
proof -
  have "take_bit k (r + offset) = 0"
    using assms(2) by (simp only: take_bit_eq_mask mask_eq_exp_minus_1)
  moreover have "unat (take_bit k (r + offset)) = take_bit k (unat (r + offset))"
    by (rule unsigned_take_bit_eq)
  ultimately have "take_bit k (unat (r + offset)) = 0" by simp
  then have "unat (r + offset) mod 2 ^ k = 0"
    by (simp only: take_bit_eq_mod)
  moreover have "unat (r + offset) = (unat r + unat offset) mod 2 ^ 64"
    by (simp add: unat_word_ariths)
  moreover have "(2 :: nat) ^ k dvd 2 ^ 64"
    by (rule le_imp_power_dvd) (use assms(1) in simp)
  ultimately have "(unat r + unat offset) mod 2 ^ k = 0"
    by (simp add: mod_mod_cancel)
  then show ?thesis by (simp only: unat_pow2 [OF assms(1)])
qed

text \<open>
  The adjustment is below the alignment, whatever the alignment (line 61), so the
  carved region lies within \<open>sz + alignment - 1\<close> bytes.
\<close>

lemma adjust_le:
  fixes alignment x :: "64 word"
  assumes "alignment \<noteq> 0"
  shows "(if x AND (alignment - 1) = 0 then 0 else alignment - (x AND (alignment - 1))) \<le> alignment - 1"
proof (cases "x AND (alignment - 1) = 0")
  case True
  then show ?thesis by simp
next
  case False
  let ?t = "x AND (alignment - 1)"
  have a1: "unat (alignment - 1) = unat alignment - 1"
    using assms by (simp add: unat_minus_one)
  have "?t \<le> alignment - 1" by (rule word_and_le1)
  then have t1: "unat ?t \<le> unat alignment - 1"
    by (simp only: word_le_nat_alt a1)
  have t0: "0 < unat ?t" using False by (simp add: unat_gt_0)
  have apos: "0 < unat alignment" using assms by (simp add: unat_gt_0)
  have "?t \<le> alignment"
    using t1 by (simp add: word_le_nat_alt)
  then have "unat (alignment - ?t) = unat alignment - unat ?t"
    by (rule unat_sub)
  then have "unat (alignment - ?t) \<le> unat alignment - 1"
    using t0 by arith
  then have "alignment - ?t \<le> alignment - 1"
    by (simp only: word_le_nat_alt a1)
  with False show ?thesis by simp
qed

lemma carve_inside:
  fixes sz alignment adjust i :: "64 word"
  assumes "alignment \<noteq> 0" and "alignment \<le> 0x7FFFFFFFFFFFFFFF" and "sz \<le> 0x7FFFFFFFFFFFFFFF"
    and "adjust \<le> alignment - 1" and "i < sz"
  shows "adjust + i < sz + alignment - 1"
proof -
  have a: "unat alignment \<le> 9223372036854775807" and s: "unat sz \<le> 9223372036854775807"
    using assms(2,3) by (simp_all add: word_le_nat_alt)
  have apos: "0 < unat alignment" using assms(1) by (simp add: unat_gt_0)
  have a1: "unat (alignment - 1) = unat alignment - 1"
    using assms(1) by (simp add: unat_minus_one)
  have adj: "unat adjust \<le> unat alignment - 1"
    using assms(4) by (simp only: word_le_nat_alt a1)
  have i: "unat i < unat sz" using assms(5) by (simp only: word_less_nat_alt)
  have l: "unat (adjust + i) = unat adjust + unat i"
    using adj i a s by (intro unat_add_lem [THEN iffD1]) simp
  have "unat (sz + (alignment - 1)) = unat sz + unat (alignment - 1)"
    using a s a1 by (intro unat_add_lem [THEN iffD1]) simp
  then have r: "unat (sz + alignment - 1) = unat sz + unat alignment - 1"
    using a1 apos by (simp add: add_diff_eq)
  show ?thesis
    unfolding word_less_nat_alt l r using adj i apos by arith
qed

lemma sub_chain:
  fixes a b c d :: "64 word"
  assumes "unat b + unat c + unat d \<le> unat a"
  shows "unat (a - b - c - d) = unat a - unat b - unat c - unat d"
proof -
  have 1: "unat (a - b) = unat a - unat b"
    using assms by (intro unat_sub) (simp add: word_le_nat_alt)
  have 2: "unat (a - b - c) = unat (a - b) - unat c"
    using assms 1 by (intro unat_sub) (simp add: word_le_nat_alt)
  have 3: "unat (a - b - c - d) = unat (a - b - c) - unat d"
    using assms 1 2 by (intro unat_sub) (simp add: word_le_nat_alt)
  show ?thesis by (simp only: 1 2 3)
qed

subsection \<open>The sample configurations\<close>

lemma release_helper_sound: "pow2_helper_sound release_config"
  unfolding pow2_helper_sound_def by (simp add: release_config_def word_pow2_trick)

lemma debug_helper_sound: "pow2_helper_sound debug_config"
  unfolding pow2_helper_sound_def by (simp add: debug_config_def word_pow2_trick)

lemma release_sizes_fit: "config_sizes_fit release_config"
  by (simp add: config_sizes_fit_def release_config_def PTRDIFF_MAX_def)

lemma debug_sizes_fit: "config_sizes_fit debug_config"
  by (simp add: config_sizes_fit_def debug_config_def PTRDIFF_MAX_def)

section \<open>C1: a successful aligned allocation is aligned\<close>

lemma fst_align_within:
  "fst (align_within B cfg sz alignment offset zero p s)
     = p + (if (p + offset) AND (alignment - 1) = 0 then 0
            else alignment - ((p + offset) AND (alignment - 1)))"
  by (simp add: align_within_def Let_def)

lemma align_within_masked:
  "(fst (align_within B cfg sz (2 ^ k) offset zero p s) + offset) AND (2 ^ k - 1) = 0"
  using carve_word [of p offset k] by (simp only: fst_align_within)

lemma align_within_masked0:
  "fst (align_within B cfg sz (2 ^ k) 0 zero p s) AND (2 ^ k - 1) = 0"
  using align_within_masked [of B cfg sz k 0 zero p s] by simp

lemma fst_heap_malloc_zero:
  "fst (mi_heap_malloc_zero B heap n z s) = fst (b_heap_malloc_zero B heap n z (world s))"
  by (simp add: mi_heap_malloc_zero_def split: prod.splits)

lemma fst_heap_malloc_small:
  "fst (mi_heap_malloc_small B heap n s) = fst (b_heap_malloc_small B heap n (world s))"
  by (simp add: mi_heap_malloc_small_def split: prod.splits)

lemma fst_page_malloc_after_probe:
  "fst (mi_page_malloc B heap n z (snd (mi_heap_get_free_small_page B heap n s)))
     = fst (b_page_malloc B heap n z (world s))"
  by (simp add: mi_page_malloc_def mi_heap_get_free_small_page_def record_call_def split: prod.splits)

lemma fst_get_free_small_page:
  "fst (mi_heap_get_free_small_page B heap n s) = b_page_free B heap n (world s)"
  by (simp add: mi_heap_get_free_small_page_def)

lemma fallback_masked:
  assumes "base_aligns B cfg" and "k < 64"
  shows "(fst (mi_heap_malloc_zero_aligned_at_fallback B cfg heap sz (2 ^ k) offset zero s) + offset)
           AND (2 ^ k - 1) = 0
       \<or> fst (mi_heap_malloc_zero_aligned_at_fallback B cfg heap sz (2 ^ k) offset zero s) = 0"
proof -
  let ?pad = "sz + MI_PADDING_SIZE cfg"
  have nat: "fst (b_heap_malloc_zero B heap sz zero (world s)) AND (2 ^ k - 1) = 0"
    if "2 ^ k \<le> ?pad" "?pad \<le> MI_MEDIUM_OBJ_SIZE_MAX cfg" "?pad AND (2 ^ k - 1) = 0"
    using assms that unfolding base_aligns_def by blast
  show ?thesis
    unfolding mi_heap_malloc_zero_aligned_at_fallback_def Let_def case_prod_beta
    using nat by (auto simp add: fst_heap_malloc_zero align_within_masked align_within_masked0)
qed

lemma aligned_at_masked:
  assumes "base_aligns B cfg" and "k < 64"
  shows "(fst (mi_heap_malloc_zero_aligned_at B cfg heap sz (2 ^ k) offset zero s) + offset)
           AND (2 ^ k - 1) = 0
       \<or> fst (mi_heap_malloc_zero_aligned_at B cfg heap sz (2 ^ k) offset zero s) = 0"
proof -
  let ?pad = "sz + MI_PADDING_SIZE cfg"
  have pm: "fst (b_page_malloc B heap ?pad zero (world s)) = b_page_free B heap ?pad (world s)"
    if "b_page_free B heap ?pad (world s) \<noteq> 0"
    using assms(1) that unfolding base_aligns_def by blast
  show ?thesis
    unfolding mi_heap_malloc_zero_aligned_at_def Let_def case_prod_beta
    using pm fallback_masked [OF assms]
    by (auto simp add: fst_page_malloc_after_probe fst_get_free_small_page)
qed

lemma malloc_aligned_masked:
  assumes "base_aligns B cfg" and "k < 64"
  shows "fst (mi_heap_malloc_aligned B cfg heap sz (2 ^ k) s) AND (2 ^ k - 1) = 0"
proof -
  have small: "fst (b_heap_malloc_small B heap sz (world s)) AND (2 ^ k - 1) = 0"
    if "sz \<le> MI_SMALL_SIZE_MAX cfg"
      and "if MI_PADDING cfg
           then 2 ^ k = sizeof_voidp \<or> (2 ^ k = MI_MAX_ALIGN_SIZE cfg \<and> sz > MI_MAX_ALIGN_SIZE cfg div 2)
           else mi_is_power_of_two cfg sz \<and> 2 ^ k \<le> sz"
    using assms that unfolding base_aligns_def by (auto split: if_splits)
  have at: "fst (mi_heap_malloc_aligned_at B cfg heap sz (2 ^ k) 0 s) AND (2 ^ k - 1) = 0"
    using aligned_at_masked [OF assms, of heap sz 0 False s]
    by (auto simp add: mi_heap_malloc_aligned_at_def)
  show ?thesis
    unfolding mi_heap_malloc_aligned_def
    using small at by (auto simp add: fst_heap_malloc_small)
qed

text \<open>The sample allocator hands out multiples of 4 GiB and meets \<open>base_aligns\<close>.\<close>

lemma pow2_le_exp:
  assumes "k < 64" and "j < 64" and "(2 :: 64 word) ^ k \<le> 2 ^ j"
  shows "k \<le> j"
proof -
  have "unat ((2 :: 64 word) ^ k) \<le> unat ((2 :: 64 word) ^ j)"
    using assms(3) by (simp only: word_le_nat_alt)
  then have "(2 :: nat) ^ k \<le> 2 ^ j"
    by (simp only: unat_pow2 [OF assms(1)] unat_pow2 [OF assms(2)])
  then show ?thesis by (rule power_le_imp_le_exp [rotated]) simp
qed

lemma slot_alloc_masked:
  assumes "j \<le> 32"
  shows "fst (slot_alloc 0 n z w) AND (2 ^ j - 1) = 0"
proof -
  have "take_bit j (push_bit 32 y :: 64 word) = 0" for y
    using assms by (simp add: take_bit_push_bit)
  then have "(push_bit 32 y :: 64 word) AND (2 ^ j - 1) = 0" for y
    by (simp only: take_bit_eq_mask mask_eq_exp_minus_1)
  then show ?thesis by (simp add: slot_alloc_def Let_def)
qed

lemma slot_alloc_masked_le:
  assumes "k < 64" and "j \<le> 32" and "(2 :: 64 word) ^ k \<le> x" and "x \<le> 2 ^ j"
  shows "fst (slot_alloc 0 n z w) AND (2 ^ k - 1) = 0"
proof -
  have "(2 :: 64 word) ^ k \<le> 2 ^ j" using assms(3,4) by (rule order_trans)
  then have "k \<le> j" using assms(1,2) by (intro pow2_le_exp) simp_all
  then show ?thesis using assms(2) by (intro slot_alloc_masked) simp
qed

lemma slot_base_aligns_release: "base_aligns slot_base release_config"
proof -
  have one: "fst (slot_alloc 0 sz zero w) AND (2 ^ k - 1) = 0"
    if "k < 64" "2 ^ k \<le> sz" "sz \<le> 0x20000" for sz zero w k
    using that slot_alloc_masked_le [of k 17 sz sz zero w] by simp
  have three: "fst (slot_alloc 0 sz False w) AND (2 ^ k - 1) = 0"
    if "k < 64" "2 ^ k \<le> sz" "sz \<le> 1024" for sz w k
    using that slot_alloc_masked_le [of k 10 sz sz False w] by simp
  show ?thesis
    unfolding base_aligns_def
    by (simp add: release_config_def slot_base_def one three Let_def)
qed

lemma slot_base_aligns_debug: "base_aligns slot_base debug_config"
proof -
  have one: "fst (slot_alloc 0 sz zero w) AND (2 ^ k - 1) = 0"
    if "k < 64" "2 ^ k \<le> sz + 8" "sz + 8 \<le> 0x20000" for sz zero w k
    using that slot_alloc_masked_le [of k 17 "sz + 8" sz zero w] by simp
  have m8: "fst (slot_alloc 0 sz False w) AND 7 = 0" for sz w
    using slot_alloc_masked [of 3 sz False w] by simp
  have m16: "fst (slot_alloc 0 sz False w) AND 15 = 0" for sz w
    using slot_alloc_masked [of 4 sz False w] by simp
  show ?thesis
    unfolding base_aligns_def
    by (auto simp add: debug_config_def slot_base_def one m8 m16 Let_def sizeof_voidp_def)
qed

text \<open>
  C1. With a base allocator that aligns as the source expects of it (\<open>base_aligns\<close>),
  every entry point for aligned allocation, called with a power-of-two alignment,
  returns \<^verbatim>\<open>NULL\<close> or a pointer \<open>r\<close> with \<open>(r + offset) mod alignment = 0\<close> as numbers
  (offset 0 for the entry points without one): on the small-object probe, on the
  natural-fit path, on the over-allocating fallback and on the huge-alignment path.
\<close>

theorem aligned_allocation_is_aligned:
  assumes "base_aligns B cfg" and "k < 64" and "alignment = 2 ^ k"
  shows "(fst (mi_heap_malloc_zero_aligned_at B cfg heap sz alignment offset zero s) \<noteq> 0 \<longrightarrow>
            aligned_at alignment offset (fst (mi_heap_malloc_zero_aligned_at B cfg heap sz alignment offset zero s)))
       \<and> (fst (mi_heap_malloc_aligned_at B cfg heap sz alignment offset s) \<noteq> 0 \<longrightarrow>
            aligned_at alignment offset (fst (mi_heap_malloc_aligned_at B cfg heap sz alignment offset s)))
       \<and> (fst (mi_heap_malloc_aligned B cfg heap sz alignment s) \<noteq> 0 \<longrightarrow>
            aligned_at alignment 0 (fst (mi_heap_malloc_aligned B cfg heap sz alignment s)))
       \<and> (fst (mi_heap_zalloc_aligned_at B cfg heap sz alignment offset s) \<noteq> 0 \<longrightarrow>
            aligned_at alignment offset (fst (mi_heap_zalloc_aligned_at B cfg heap sz alignment offset s)))
       \<and> (fst (mi_heap_zalloc_aligned B cfg heap sz alignment s) \<noteq> 0 \<longrightarrow>
            aligned_at alignment 0 (fst (mi_heap_zalloc_aligned B cfg heap sz alignment s)))
       \<and> (fst (mi_heap_calloc_aligned_at B cfg heap count sz alignment offset s) \<noteq> 0 \<longrightarrow>
            aligned_at alignment offset (fst (mi_heap_calloc_aligned_at B cfg heap count sz alignment offset s)))
       \<and> (fst (mi_heap_calloc_aligned B cfg heap count sz alignment s) \<noteq> 0 \<longrightarrow>
            aligned_at alignment 0 (fst (mi_heap_calloc_aligned B cfg heap count sz alignment s)))
       \<and> (fst (mi_malloc_aligned_at B cfg sz alignment offset s) \<noteq> 0 \<longrightarrow>
            aligned_at alignment offset (fst (mi_malloc_aligned_at B cfg sz alignment offset s)))
       \<and> (fst (mi_malloc_aligned B cfg sz alignment s) \<noteq> 0 \<longrightarrow>
            aligned_at alignment 0 (fst (mi_malloc_aligned B cfg sz alignment s)))
       \<and> (fst (mi_zalloc_aligned_at B cfg sz alignment offset s) \<noteq> 0 \<longrightarrow>
            aligned_at alignment offset (fst (mi_zalloc_aligned_at B cfg sz alignment offset s)))
       \<and> (fst (mi_zalloc_aligned B cfg sz alignment s) \<noteq> 0 \<longrightarrow>
            aligned_at alignment 0 (fst (mi_zalloc_aligned B cfg sz alignment s)))
       \<and> (fst (mi_calloc_aligned_at B cfg count sz alignment offset s) \<noteq> 0 \<longrightarrow>
            aligned_at alignment offset (fst (mi_calloc_aligned_at B cfg count sz alignment offset s)))
       \<and> (fst (mi_calloc_aligned B cfg count sz alignment s) \<noteq> 0 \<longrightarrow>
            aligned_at alignment 0 (fst (mi_calloc_aligned B cfg count sz alignment s)))"
proof -
  have g: "aligned_at alignment off (fst (mi_heap_malloc_zero_aligned_at B cfg h n alignment off z s))"
    if "fst (mi_heap_malloc_zero_aligned_at B cfg h n alignment off z s) \<noteq> 0" for h n off z
    unfolding aligned_at_def assms(3)
    using aligned_at_masked [OF assms(1,2), of h n off z s] that
    by (intro masked_zero_nat [OF assms(2)]) (simp add: assms(3))
  have m: "aligned_at alignment 0 (fst (mi_heap_malloc_aligned B cfg h sz alignment s))" for h
    unfolding aligned_at_def assms(3)
    using malloc_aligned_masked [OF assms(1,2), of h sz s]
    by (intro masked_zero_nat [OF assms(2)]) simp
  have c: "aligned_at alignment off (fst (mi_heap_calloc_aligned_at B cfg h count sz alignment off s))"
    if "fst (mi_heap_calloc_aligned_at B cfg h count sz alignment off s) \<noteq> 0" for h off
    using that g
    by (auto simp add: mi_heap_calloc_aligned_at_def mi_heap_zalloc_aligned_at_def split: prod.splits if_splits)
  show ?thesis
    using g m c
    by (simp add: mi_heap_malloc_aligned_at_def mi_heap_zalloc_aligned_at_def
        mi_heap_zalloc_aligned_def mi_heap_calloc_aligned_def mi_malloc_aligned_at_def
        mi_malloc_aligned_def mi_zalloc_aligned_at_def mi_zalloc_aligned_def
        mi_calloc_aligned_at_def mi_calloc_aligned_def)
qed

text \<open>
  One request per path: the probe (64 bytes at 64), the natural fit (2048 bytes at 64),
  the over-allocating fallback (100 bytes at 64 with offset 3, with padding), the
  huge-alignment path (10 bytes at 32 MiB) and the small fast path of
  \<^verbatim>\<open>mi_heap_malloc_aligned\<close> (64 bytes at 16).
\<close>

theorem aligned_allocation_is_aligned_witness:
  "base_aligns slot_base release_config \<and> base_aligns slot_base debug_config
   \<and> (6 :: nat) < 64 \<and> (64 :: size_t) = 2 ^ 6
   \<and> fst (mi_heap_malloc_aligned_at slot_base release_config 0x1000 64 64 0 busy) = 0x200000040
   \<and> aligned_at 64 0 0x200000040
   \<and> fst (mi_heap_zalloc_aligned slot_base release_config 0x1000 2048 64 busy) = 0x300000000
   \<and> aligned_at 64 0 0x300000000
   \<and> fst (mi_malloc_aligned_at slot_base debug_config 100 64 3 busy) = 0x30000003D
   \<and> aligned_at 64 3 0x30000003D
   \<and> (25 :: nat) < 64 \<and> (0x2000000 :: size_t) = 2 ^ 25
   \<and> fst (mi_heap_calloc_aligned slot_base debug_config 0x1000 5 2 0x2000000 busy) = 0x302000000
   \<and> aligned_at 0x2000000 0 0x302000000
   \<and> (4 :: nat) < 64 \<and> (16 :: size_t) = 2 ^ 4
   \<and> fst (mi_heap_malloc_aligned slot_base release_config 0x1000 64 16 busy) = 0x300000000
   \<and> aligned_at 16 0 0x300000000"
proof -
  have k6: "(6 :: nat) < 64" and a6: "(64 :: size_t) = 2 ^ 6"
    and k25: "(25 :: nat) < 64" and a25: "(0x2000000 :: size_t) = 2 ^ 25"
    and k4: "(4 :: nat) < 64" and a4: "(16 :: size_t) = 2 ^ 4"
    by simp_all
  have r1: "fst (mi_heap_malloc_aligned_at slot_base release_config 0x1000 64 64 0 busy) = 0x200000040"
    and r2: "fst (mi_heap_zalloc_aligned slot_base release_config 0x1000 2048 64 busy) = 0x300000000"
    and r3: "fst (mi_malloc_aligned_at slot_base debug_config 100 64 3 busy) = 0x30000003D"
    and r4: "fst (mi_heap_calloc_aligned slot_base debug_config 0x1000 5 2 0x2000000 busy) = 0x302000000"
    and r5: "fst (mi_heap_malloc_aligned slot_base release_config 0x1000 64 16 busy) = 0x300000000"
    by (simp_all add: entry_defs aligned_alloc_defs call_defs sample_defs Let_def)
  show ?thesis
    using k6 a6 k25 a25 k4 a4 r1 r2 r3 r4 r5 slot_base_aligns_release slot_base_aligns_debug
      aligned_allocation_is_aligned [OF slot_base_aligns_release k6 a6, of "0x1000" 64 0 False busy]
      aligned_allocation_is_aligned [OF slot_base_aligns_release k6 a6, of "0x1000" 2048 0 False busy]
      aligned_allocation_is_aligned [OF slot_base_aligns_debug k6 a6, of "0x1000" 100 3 False busy]
      aligned_allocation_is_aligned [OF slot_base_aligns_debug k25 a25, of "0x1000" 2 0 False busy 5]
      aligned_allocation_is_aligned [OF slot_base_aligns_release k4 a4, of "0x1000" 64 0 False busy]
    by simp
qed

section \<open>C2: zero-initialised aligned allocation\<close>

text \<open>
  The primitive allocator with \<^verbatim>\<open>zero = true\<close>: the probe, the natural fit and the
  over-allocating fallback return zeroed bytes from a base allocator that zero-fills on
  request; the huge-alignment path takes its block unzeroed and zeroes afterwards.
\<close>

lemma world_heap_malloc_zero:
  "world (snd (mi_heap_malloc_zero B heap n z s)) = snd (b_heap_malloc_zero B heap n z (world s))"
  by (simp add: mi_heap_malloc_zero_def record_call_def split: prod.splits)

lemma world_heap_malloc_zero_ex:
  "world (snd (mi_heap_malloc_zero_ex B heap n z a s)) = snd (b_heap_malloc_zero_ex B heap n z a (world s))"
  by (simp add: mi_heap_malloc_zero_ex_def record_call_def split: prod.splits)

lemma fst_heap_malloc_zero_ex:
  "fst (mi_heap_malloc_zero_ex B heap n z a s) = fst (b_heap_malloc_zero_ex B heap n z a (world s))"
  by (simp add: mi_heap_malloc_zero_ex_def split: prod.splits)

lemma world_page_malloc_after_probe:
  "world (snd (mi_page_malloc B heap n z (snd (mi_heap_get_free_small_page B heap n s))))
     = snd (b_page_malloc B heap n z (world s))"
  by (simp add: mi_page_malloc_def mi_heap_get_free_small_page_def record_call_def split: prod.splits)

lemma world_get_free_small_page:
  "world (snd (mi_heap_get_free_small_page B heap n s)) = world s"
  by (simp add: mi_heap_get_free_small_page_def record_call_def)

lemma mem_align_within_small:
  "\<not> MI_ALIGNMENT_MAX cfg < alignment \<Longrightarrow>
     mem (world (snd (align_within B cfg sz alignment offset zero p s))) = mem (world s)"
  by (simp add: align_within_def Let_def mi_page_set_has_aligned_def record_call_def)

lemma zero_natural:
  assumes "base_zeroes B cfg"
    and "fst (mi_heap_malloc_zero B heap n True s) \<noteq> 0"
  shows "zero_filled (snd (mi_heap_malloc_zero B heap n True s)) (fst (mi_heap_malloc_zero B heap n True s)) n"
  using assms unfolding base_zeroes_def zero_filled_def
  by (simp add: world_heap_malloc_zero fst_heap_malloc_zero)

lemma zero_probe:
  assumes "base_zeroes B cfg" and "MI_PADDING_SIZE cfg \<le> PTRDIFF_MAX" and "sz \<le> PTRDIFF_MAX"
    and "fst (b_page_malloc B heap (sz + MI_PADDING_SIZE cfg) True (world s)) \<noteq> 0"
  shows "\<forall>i. i < sz \<longrightarrow> mem (snd (b_page_malloc B heap (sz + MI_PADDING_SIZE cfg) True (world s)))
           (fst (b_page_malloc B heap (sz + MI_PADDING_SIZE cfg) True (world s)) + i) = 0"
proof -
  let ?pad = "MI_PADDING_SIZE cfg"
  have "unat sz + unat ?pad < 2 ^ 64"
    using assms(2,3) by (simp add: PTRDIFF_MAX_def word_le_nat_alt)
  then have "unat (sz + ?pad) = unat sz + unat ?pad"
    by (intro unat_add_lem [THEN iffD1]) simp
  then have le: "?pad \<le> sz + ?pad" by (simp add: word_le_nat_alt)
  have eq: "sz + ?pad - ?pad = sz" by simp
  show ?thesis
    using assms(1,4) le unfolding base_zeroes_def by (simp add: eq)
qed

lemma zero_over_allocate:
  assumes "base_zeroes B cfg" and "MI_ALIGNMENT_MAX cfg \<le> PTRDIFF_MAX"
    and "alignment \<noteq> 0" and "\<not> MI_ALIGNMENT_MAX cfg < alignment" and "sz \<le> PTRDIFF_MAX"
    and "fst (mi_heap_malloc_zero B heap (sz + alignment - 1) True s) \<noteq> 0"
  shows "zero_filled
           (snd (align_within B cfg sz alignment offset True
                   (fst (mi_heap_malloc_zero B heap (sz + alignment - 1) True s))
                   (snd (mi_heap_malloc_zero B heap (sz + alignment - 1) True s))))
           (fst (align_within B cfg sz alignment offset True
                   (fst (mi_heap_malloc_zero B heap (sz + alignment - 1) True s))
                   (snd (mi_heap_malloc_zero B heap (sz + alignment - 1) True s))))
           sz"
proof -
  let ?p = "fst (mi_heap_malloc_zero B heap (sz + alignment - 1) True s)"
  let ?s1 = "snd (mi_heap_malloc_zero B heap (sz + alignment - 1) True s)"
  let ?adj = "if (?p + offset) AND (alignment - 1) = 0 then 0
              else alignment - ((?p + offset) AND (alignment - 1))"
  have z: "zero_filled ?s1 ?p (sz + alignment - 1)"
    using assms(1,6) by (rule zero_natural)
  have al: "alignment \<le> 0x7FFFFFFFFFFFFFFF"
    using assms(2,4) by (simp add: PTRDIFF_MAX_def not_less)
  have adj: "?adj \<le> alignment - 1"
    using assms(3) by (rule adjust_le)
  have "mem (world ?s1) (?p + ?adj + i) = 0" if "i < sz" for i
  proof -
    have "?adj + i < sz + alignment - 1"
      using assms(3) al assms(5) [unfolded PTRDIFF_MAX_def] adj that by (rule carve_inside)
    then have "mem (world ?s1) (?p + (?adj + i)) = 0"
      using z unfolding zero_filled_def by blast
    then show ?thesis by (simp only: add.assoc)
  qed
  then show ?thesis
    unfolding zero_filled_def
    by (simp only: mem_align_within_small [OF assms(4)] fst_align_within) simp
qed

text \<open>
  The huge-alignment path: lines 72 to 79 zero \<open>zsize\<close> bytes from the aligned pointer
  on, where \<open>zsize\<close> is the usable block size less the adjustment, the padding and
  (with padding) \<open>MI_MAX_ALIGN_SIZE\<close>. The requested size is not part of it.
\<close>

lemma mem_align_within_huge:
  assumes bz: "base_zeroes B cfg" and huge: "MI_ALIGNMENT_MAX cfg < alignment"
  shows "mem (world (snd (align_within B cfg sz alignment 0 True p s)))
       = (if 0 < sint (if MI_PADDING cfg
                       then b_page_usable_block_size B p (world s) - align_gap alignment p
                              - MI_PADDING_SIZE cfg - MI_MAX_ALIGN_SIZE cfg
                       else b_page_usable_block_size B p (world s) - align_gap alignment p
                              - MI_PADDING_SIZE cfg)
          then fill (mem (world s)) (p + align_gap alignment p)
                 (if MI_PADDING cfg
                  then b_page_usable_block_size B p (world s) - align_gap alignment p
                         - MI_PADDING_SIZE cfg - MI_MAX_ALIGN_SIZE cfg
                  else b_page_usable_block_size B p (world s) - align_gap alignment p
                         - MI_PADDING_SIZE cfg) 0
          else mem (world s))"
proof -
  have flag: "b_page_usable_block_size B q (w\<lparr>priv := b_page_set_has_aligned B q' (priv w)\<rparr>)
                = b_page_usable_block_size B q w" for q q' w
    using bz unfolding base_zeroes_def by blast
  show ?thesis
    using huge
    by (simp add: align_within_def Let_def align_gap_def mi_page_set_has_aligned_def
        mi_page_usable_block_size_def mi_memzero_def record_call_def flag)
qed

text \<open>
  A block that is as tight as line 67 allows, its usable size being the adjustment plus
  the \<open>sz\<close> bytes asked for: with padding, the bytes of the result from
  \<open>sz - MI_PADDING_SIZE - MI_MAX_ALIGN_SIZE\<close> on are not written, whatever the base
  allocator.
\<close>

lemma tight_huge_block_tail_not_zeroed:
  assumes bz: "base_zeroes B cfg" and huge: "MI_ALIGNMENT_MAX cfg < alignment"
    and pad: "MI_PADDING cfg"
    and tight: "unat (b_page_usable_block_size B p (world s))
                  = unat (align_gap alignment p) + unat sz"
    and slack: "unat (MI_PADDING_SIZE cfg) + unat (MI_MAX_ALIGN_SIZE cfg) \<le> unat sz"
    and i: "unat sz - (unat (MI_PADDING_SIZE cfg) + unat (MI_MAX_ALIGN_SIZE cfg)) \<le> unat i"
  shows "mem (world (snd (align_within B cfg sz alignment 0 True p s)))
           (p + align_gap alignment p + i)
         = mem (world s) (p + align_gap alignment p + i)"
proof -
  let ?usable = "b_page_usable_block_size B p (world s)"
  let ?gap = "align_gap alignment p"
  define zsize where "zsize = ?usable - ?gap - MI_PADDING_SIZE cfg - MI_MAX_ALIGN_SIZE cfg"
  have "unat ?gap + unat (MI_PADDING_SIZE cfg) + unat (MI_MAX_ALIGN_SIZE cfg) \<le> unat ?usable"
    using tight slack by arith
  then have "unat zsize = unat ?usable - unat ?gap - unat (MI_PADDING_SIZE cfg)
                            - unat (MI_MAX_ALIGN_SIZE cfg)"
    unfolding zsize_def by (rule sub_chain)
  then have "unat zsize \<le> unat i"
    using tight i by arith
  then have ni: "\<not> i < zsize"
    by (simp add: word_less_nat_alt)
  have m: "mem (world (snd (align_within B cfg sz alignment 0 True p s)))
       = (if 0 < sint zsize then fill (mem (world s)) (p + ?gap) zsize 0 else mem (world s))"
    using mem_align_within_huge [OF bz huge, of sz p s] pad
    by (simp only: zsize_def if_True)
  show ?thesis
    using ni by (simp add: m fill_def)
qed

text \<open>
  With room in the block for the bytes asked for and for what is subtracted, the bytes
  asked for are zeroed.
\<close>

lemma zero_huge:
  assumes bz: "base_zeroes B cfg" and huge: "MI_ALIGNMENT_MAX cfg < alignment"
    and n: "n = (if sz \<le> MI_SMALL_SIZE_MAX cfg then MI_SMALL_SIZE_MAX cfg + 1 else sz)"
    and rm: "huge_block_room B cfg heap sz alignment (world s)"
    and p: "fst (mi_heap_malloc_zero_ex B heap n False alignment s) \<noteq> 0"
  shows "zero_filled
           (snd (align_within B cfg sz alignment 0 True
                   (fst (mi_heap_malloc_zero_ex B heap n False alignment s))
                   (snd (mi_heap_malloc_zero_ex B heap n False alignment s))))
           (fst (align_within B cfg sz alignment 0 True
                   (fst (mi_heap_malloc_zero_ex B heap n False alignment s))
                   (snd (mi_heap_malloc_zero_ex B heap n False alignment s))))
           sz"
proof -
  let ?p = "fst (mi_heap_malloc_zero_ex B heap n False alignment s)"
  let ?s1 = "snd (mi_heap_malloc_zero_ex B heap n False alignment s)"
  let ?w1 = "snd (b_heap_malloc_zero_ex B heap n False alignment (world s))"
  let ?gap = "align_gap alignment ?p"
  let ?usable = "b_page_usable_block_size B ?p ?w1"
  let ?pad = "MI_PADDING_SIZE cfg"
  let ?ma = "if MI_PADDING cfg then MI_MAX_ALIGN_SIZE cfg else 0"
  let ?r = "?p + ?gap"
  have pe: "?p = fst (b_heap_malloc_zero_ex B heap n False alignment (world s))"
    by (rule fst_heap_malloc_zero_ex)
  have p': "fst (b_heap_malloc_zero_ex B heap n False alignment (world s)) \<noteq> 0"
    using p by (simp add: fst_heap_malloc_zero_ex)
  have w1: "world ?s1 = ?w1" by (rule world_heap_malloc_zero_ex)
  have "unat ?gap + unat sz + unat ?pad
          + (if MI_PADDING cfg then unat (MI_MAX_ALIGN_SIZE cfg) else 0) \<le> unat ?usable
        \<and> ?usable \<le> PTRDIFF_MAX"
    using rm huge p'
    by (simp add: huge_block_room_def Let_def fst_heap_malloc_zero_ex n [symmetric])
  then have room: "unat ?gap + unat sz + unat ?pad + unat ?ma \<le> unat ?usable"
    and fits: "?usable \<le> PTRDIFF_MAX"
    by (simp_all split: if_splits)
  define zsize where "zsize = ?usable - ?gap - ?pad - ?ma"
  have zs: "unat zsize = unat ?usable - unat ?gap - unat ?pad - unat ?ma"
    unfolding zsize_def using room by (intro sub_chain) arith
  have zge: "unat sz \<le> unat zsize"
    using zs room by arith
  have "zsize \<le> ?usable"
    using zs by (simp add: word_le_nat_alt)
  then have "zsize \<le> 0x7FFFFFFFFFFFFFFF"
    using fits by (simp add: PTRDIFF_MAX_def)
  then have si: "sint zsize = int (unat zsize)" by (rule sint_small)
  have zform: "(if MI_PADDING cfg then ?usable - ?gap - ?pad - MI_MAX_ALIGN_SIZE cfg
                else ?usable - ?gap - ?pad) = zsize"
    unfolding zsize_def by simp
  have res: "fst (align_within B cfg sz alignment 0 True ?p ?s1) = ?r"
    by (simp add: fst_align_within align_gap_def)
  have memz: "mem (world (snd (align_within B cfg sz alignment 0 True ?p ?s1)))
      = (if 0 < sint zsize then fill (mem ?w1) ?r zsize 0 else mem ?w1)"
    using mem_align_within_huge [OF bz huge, of sz ?p ?s1]
    by (simp only: w1 zform)
  have "mem (world (snd (align_within B cfg sz alignment 0 True ?p ?s1))) (?r + i) = 0"
    if "i < sz" for i
  proof -
    have ui: "unat i < unat zsize"
      using that zge by (simp add: word_less_nat_alt)
    then have iz: "i < zsize" by (simp only: word_less_nat_alt)
    have "0 < unat zsize" using ui by arith
    then have "(0 :: int) < int (unat zsize)" by (simp only: of_nat_0_less_iff)
    then have "0 < sint zsize" by (simp only: si)
    then show ?thesis
      using iz by (simp only: memz fill_def) simp
  qed
  then show ?thesis
    unfolding zero_filled_def by (simp only: res) simp
qed

lemma zero_fallback:
  assumes bz: "base_zeroes B cfg" and fit: "config_sizes_fit cfg"
    and a0: "alignment \<noteq> 0" and szok: "sz \<le> PTRDIFF_MAX"
    and rm: "huge_block_room B cfg heap sz alignment (world s)"
    and r: "fst (mi_heap_malloc_zero_aligned_at_fallback B cfg heap sz alignment offset True s) \<noteq> 0"
  shows "zero_filled (snd (mi_heap_malloc_zero_aligned_at_fallback B cfg heap sz alignment offset True s))
           (fst (mi_heap_malloc_zero_aligned_at_fallback B cfg heap sz alignment offset True s)) sz"
proof -
  let ?F = "mi_heap_malloc_zero_aligned_at_fallback B cfg heap sz alignment offset True s"
  let ?pad = "sz + MI_PADDING_SIZE cfg"
  let ?n = "if sz \<le> MI_SMALL_SIZE_MAX cfg then MI_SMALL_SIZE_MAX cfg + 1 else sz"
  have amax: "MI_ALIGNMENT_MAX cfg \<le> PTRDIFF_MAX"
    using fit by (simp add: config_sizes_fit_def)
  let ?X = "mi_heap_malloc_zero_ex B heap ?n False alignment s"
  let ?Y = "mi_heap_malloc_zero B heap (sz + alignment - 1) True s"
  define fits where "fits \<longleftrightarrow> offset = 0 \<and> alignment \<le> ?pad \<and> ?pad \<le> MI_MEDIUM_OBJ_SIZE_MAX cfg
                \<and> ?pad AND (alignment - 1) = 0"
  have F: "?F = (if fits then mi_heap_malloc_zero B heap sz True s
                 else if MI_ALIGNMENT_MAX cfg < alignment then
                   (if offset \<noteq> 0 then (0, s)
                    else if fst ?X = 0 then (0, snd ?X)
                    else align_within B cfg sz alignment offset True (fst ?X) (snd ?X))
                 else
                   (if fst ?Y = 0 then (0, snd ?Y)
                    else align_within B cfg sz alignment offset True (fst ?Y) (snd ?Y)))"
    unfolding mi_heap_malloc_zero_aligned_at_fallback_def Let_def case_prod_beta fits_def
    by simp
  consider (natural) "fits" | (huge) "\<not> fits" "MI_ALIGNMENT_MAX cfg < alignment"
    | (over) "\<not> fits" "\<not> MI_ALIGNMENT_MAX cfg < alignment"
    by blast
  then show ?thesis
  proof cases
    case natural
    then have eq: "?F = mi_heap_malloc_zero B heap sz True s"
      by (simp only: F if_True)
    show ?thesis
      using r zero_natural [OF bz, of heap sz s] unfolding eq by simp
  next
    case huge
    have eq: "?F = (if offset \<noteq> 0 then (0, s)
                    else if fst ?X = 0 then (0, snd ?X)
                    else align_within B cfg sz alignment offset True (fst ?X) (snd ?X))"
      using huge by (simp only: F if_True if_False)
    have o: "offset = 0" and x: "fst ?X \<noteq> 0"
      using r unfolding eq by (auto split: if_splits)
    have eq': "?F = align_within B cfg sz alignment 0 True (fst ?X) (snd ?X)"
      unfolding eq using o x by simp
    show ?thesis
      using zero_huge [OF bz huge(2) refl rm x] unfolding eq' by simp
  next
    case over
    have eq: "?F = (if fst ?Y = 0 then (0, snd ?Y)
                    else align_within B cfg sz alignment offset True (fst ?Y) (snd ?Y))"
      using over by (simp only: F if_True if_False)
    have x: "fst ?Y \<noteq> 0"
      using r unfolding eq by (auto split: if_splits)
    have eq': "?F = align_within B cfg sz alignment offset True (fst ?Y) (snd ?Y)"
      unfolding eq using x by simp
    show ?thesis
      using zero_over_allocate [OF bz amax a0 over(2) szok x] unfolding eq' by simp
  qed
qed

lemma zero_aligned_at:
  assumes bz: "base_zeroes B cfg" and fit: "config_sizes_fit cfg"
    and rm: "huge_block_room B cfg heap sz alignment (world s)"
    and r: "fst (mi_heap_malloc_zero_aligned_at B cfg heap sz alignment offset True s) \<noteq> 0"
  shows "zero_filled (snd (mi_heap_malloc_zero_aligned_at B cfg heap sz alignment offset True s))
           (fst (mi_heap_malloc_zero_aligned_at B cfg heap sz alignment offset True s)) sz"
proof -
  let ?A = "mi_heap_malloc_zero_aligned_at B cfg heap sz alignment offset True s"
  let ?pad = "sz + MI_PADDING_SIZE cfg"
  let ?G = "mi_heap_get_free_small_page B heap ?pad s"
  have valid: "alignment \<noteq> 0" "sz \<le> PTRDIFF_MAX"
    using r by (auto simp add: mi_heap_malloc_zero_aligned_at_def not_less split: if_splits)
  have pok: "MI_PADDING_SIZE cfg \<le> PTRDIFF_MAX"
    using fit by (simp add: config_sizes_fit_def)
  consider
    (probe) "?A = mi_page_malloc B heap ?pad True (snd ?G)"
  | (fb1) "?A = mi_heap_malloc_zero_aligned_at_fallback B cfg heap sz alignment offset True (snd ?G)"
  | (fb2) "?A = mi_heap_malloc_zero_aligned_at_fallback B cfg heap sz alignment offset True s"
    using r by (auto simp add: mi_heap_malloc_zero_aligned_at_def Let_def case_prod_beta split: if_splits)
  then show ?thesis
  proof cases
    case probe
    have x: "fst (b_page_malloc B heap ?pad True (world s)) \<noteq> 0"
      using r unfolding probe by (simp add: fst_page_malloc_after_probe)
    show ?thesis
      unfolding probe zero_filled_def
      using zero_probe [OF bz pok valid(2) x]
      by (simp add: fst_page_malloc_after_probe world_page_malloc_after_probe)
  next
    case fb1
    show ?thesis
      using r zero_fallback [OF bz fit valid, of heap "snd ?G" offset] rm
      unfolding fb1 by (simp add: world_get_free_small_page)
  next
    case fb2
    show ?thesis
      using r zero_fallback [OF bz fit valid rm, of offset] unfolding fb2 by simp
  qed
qed

text \<open>
  The public entry points that zero are this allocator with \<^verbatim>\<open>zero = true\<close>, on the
  default heap and on the product of the counted variants.
\<close>

lemma zeroing_entry_points:
  "mi_heap_zalloc_aligned_at B cfg heap sz alignment offset s
     = mi_heap_malloc_zero_aligned_at B cfg heap sz alignment offset True s"
  "mi_heap_zalloc_aligned B cfg heap sz alignment s
     = mi_heap_malloc_zero_aligned_at B cfg heap sz alignment 0 True s"
  "mi_heap_calloc_aligned_at B cfg heap count sz alignment offset s
     = (if fst (mi_count_size_overflow count sz) then (0, s)
        else mi_heap_malloc_zero_aligned_at B cfg heap (snd (mi_count_size_overflow count sz))
               alignment offset True s)"
  "mi_heap_calloc_aligned B cfg heap count sz alignment s
     = mi_heap_calloc_aligned_at B cfg heap count sz alignment 0 s"
  "mi_zalloc_aligned_at B cfg sz alignment offset s
     = mi_heap_zalloc_aligned_at B cfg (mi_get_default_heap B s) sz alignment offset s"
  "mi_zalloc_aligned B cfg sz alignment s
     = mi_heap_zalloc_aligned B cfg (mi_get_default_heap B s) sz alignment s"
  "mi_calloc_aligned_at B cfg count sz alignment offset s
     = mi_heap_calloc_aligned_at B cfg (mi_get_default_heap B s) count sz alignment offset s"
  "mi_calloc_aligned B cfg count sz alignment s
     = mi_heap_calloc_aligned B cfg (mi_get_default_heap B s) count sz alignment s"
  by (simp_all add: entry_defs case_prod_beta)

text \<open>
  The sample allocator zero-fills on request, with a roomy and with a tight block on
  the huge-alignment path.
\<close>

lemma slot_alloc_zeroes:
  assumes "fst (slot_alloc lead n True w) \<noteq> 0" and "i < n"
  shows "mem (snd (slot_alloc lead n True w)) (fst (slot_alloc lead n True w) + i) = 0"
  using assms by (simp add: slot_alloc_def Let_def fill_def split: if_splits)

lemma sub_less_self:
  fixes i n :: "64 word"
  assumes "8 \<le> n" and "i < n - 8"
  shows "i < n"
proof -
  have "unat (n - 8) = unat n - unat (8 :: 64 word)" using assms(1) by (rule unat_sub)
  then show ?thesis using assms(2) by (simp add: word_less_nat_alt)
qed

lemma slot_base_zeroes_debug: "base_zeroes slot_base debug_config"
  unfolding base_zeroes_def
  apply (intro conjI allI impI)
  subgoal for heap n w i using slot_alloc_zeroes [of 0 n w i] by (simp add: slot_base_def)
  subgoal for heap n w i using sub_less_self [of n i]
    by (simp add: slot_base_def debug_config_def Let_def fill_def)
  subgoal by (simp add: slot_base_def)
  done

lemma tight_base_zeroes_debug: "base_zeroes tight_base debug_config"
  unfolding base_zeroes_def
  apply (intro conjI allI impI)
  subgoal for heap n w i using slot_alloc_zeroes [of 0 n w i] by (simp add: tight_base_def slot_base_def)
  subgoal for heap n w i using sub_less_self [of n i]
    by (simp add: tight_base_def slot_base_def debug_config_def Let_def fill_def)
  subgoal by (simp add: tight_base_def slot_base_def)
  done

text \<open>
  One request per path, with padding: the probe (56 bytes at 64), the natural fit (2040
  bytes at 64), the over-allocating fallback (100 bytes at 64 with offset 3) and the
  huge-alignment path (10 bytes at 32 MiB), the last also on the tight block, which
  has 1025 bytes behind the adjustment and gets 1001 of them zeroed.
\<close>

lemma zero_aligned_at_samples:
  "zero_filled (snd (mi_heap_malloc_zero_aligned_at slot_base debug_config 0x1000 56 64 0 True busy))
     0x200000040 56
   \<and> zero_filled (snd (mi_heap_malloc_zero_aligned_at slot_base debug_config 0x1000 2040 64 0 True busy))
     0x300000000 2040
   \<and> zero_filled (snd (mi_heap_malloc_zero_aligned_at slot_base debug_config 0x1000 100 64 3 True busy))
     0x30000003D 100
   \<and> zero_filled (snd (mi_heap_malloc_zero_aligned_at slot_base debug_config 0x1000 10 0x2000000 0 True busy))
     0x302000000 10
   \<and> zero_filled (snd (mi_heap_malloc_zero_aligned_at tight_base debug_config 0x1000 10 0x2000000 0 True busy))
     0x302000000 10"
proof -
  have r1: "fst (mi_heap_malloc_zero_aligned_at slot_base debug_config 0x1000 56 64 0 True busy) = 0x200000040"
    and r2: "fst (mi_heap_malloc_zero_aligned_at slot_base debug_config 0x1000 2040 64 0 True busy) = 0x300000000"
    and r3: "fst (mi_heap_malloc_zero_aligned_at slot_base debug_config 0x1000 100 64 3 True busy) = 0x30000003D"
    and r4: "fst (mi_heap_malloc_zero_aligned_at slot_base debug_config 0x1000 10 0x2000000 0 True busy) = 0x302000000"
    by (simp_all add: aligned_alloc_defs call_defs sample_defs Let_def)
  have r5: "fst (mi_heap_malloc_zero_aligned_at tight_base debug_config 0x1000 10 0x2000000 0 True busy) = 0x302000000"
    by (simp add: aligned_alloc_defs call_defs sample_defs tight_base_def align_gap_def Let_def)
  have h1: "huge_block_room slot_base debug_config 0x1000 56 64 (world busy)"
    and h2: "huge_block_room slot_base debug_config 0x1000 2040 64 (world busy)"
    and h3: "huge_block_room slot_base debug_config 0x1000 100 64 (world busy)"
    by (simp_all add: huge_block_room_def debug_config_def)
  have h4: "huge_block_room slot_base debug_config 0x1000 10 0x2000000 (world busy)"
    by (simp add: huge_block_room_def sample_defs align_gap_def Let_def)
  have h5: "huge_block_room tight_base debug_config 0x1000 10 0x2000000 (world busy)"
    by (simp add: huge_block_room_def sample_defs tight_base_def align_gap_def Let_def)
  show ?thesis
    using zero_aligned_at [OF slot_base_zeroes_debug debug_sizes_fit h1, of 0]
      zero_aligned_at [OF slot_base_zeroes_debug debug_sizes_fit h2, of 0]
      zero_aligned_at [OF slot_base_zeroes_debug debug_sizes_fit h3, of 3]
      zero_aligned_at [OF slot_base_zeroes_debug debug_sizes_fit h4, of 0]
      zero_aligned_at [OF tight_base_zeroes_debug debug_sizes_fit h5, of 0]
    by (simp add: r1 r2 r3 r4 r5)
qed

text \<open>
  C2 fails on the huge-alignment path. With padding, 2000 bytes at 32 MiB from
  \<open>tight_base\<close>: the block at \<open>0x300000040\<close> has exactly the adjustment plus 2000
  usable bytes, the least that line 67 asserts; lines 74 to 78 zero
  2000 - 8 - 16 = 1976 bytes from the result on, and the last 24 bytes of the result
  keep \<open>0xAA\<close>, where the claim has every byte of the 2000 read as zero.
\<close>

theorem huge_zeroing_falls_short:
  "fst (mi_heap_zalloc_aligned tight_base debug_config 0x1000 2000 0x2000000 busy) = 0x302000000
   \<and> mem (world (snd (mi_heap_zalloc_aligned tight_base debug_config 0x1000 2000 0x2000000 busy)))
         (0x302000000 + 1975) = 0
   \<and> mem (world (snd (mi_heap_zalloc_aligned tight_base debug_config 0x1000 2000 0x2000000 busy)))
         (0x302000000 + 1976) = 0xAA
   \<and> mem (world (snd (mi_heap_zalloc_aligned tight_base debug_config 0x1000 2000 0x2000000 busy)))
         (0x302000000 + 1999) = 0xAA
   \<and> mi_page_usable_block_size tight_base 0x300000040
         (snd (mi_heap_zalloc_aligned tight_base debug_config 0x1000 2000 0x2000000 busy))
       = (0x302000000 - 0x300000040) + 2000
   \<and> calls (snd (mi_heap_zalloc_aligned tight_base debug_config 0x1000 2000 0x2000000 busy))
       = [EvHeapMallocZeroEx 0x1000 2000 False 0x2000000, EvPageSetHasAligned 0x300000040,
          EvMemzero 0x302000000 1976]"
  by (simp add: entry_defs aligned_alloc_defs call_defs sample_defs tight_base_def align_gap_def Let_def)

section \<open>C3: the in-place test of the aligned reallocator\<close>



lemma realloc_zero_tail_calls:
  "\<exists>zs. calls (realloc_zero_tail B newp newsize sz zero s) = calls s @ zs
        \<and> list_all (\<lambda>e. \<forall>q. e \<noteq> EvFree q) zs"
  by (simp add: realloc_zero_tail_def memset_def record_call_def Let_def)

lemma memcpy_calls:
  "calls (mi_memcpy_aligned d src n s) = calls s @ [EvMemcpy d src n]"
  by (simp add: mi_memcpy_aligned_def record_call_def)

lemma memcpy_mem:
  "i < n \<Longrightarrow> mem (world (mi_memcpy_aligned d src n s)) (d + i) = mem (world s) (src + i)"
  by (simp add: mi_memcpy_aligned_def record_call_def copy_def)

lemma free_calls: "calls (mi_free B p s) = calls s @ [EvFree p]"
  by (simp add: mi_free_def record_call_def)

lemma no_touch_no_free: "list_all (\<lambda>e. \<not> touches_block e) es \<Longrightarrow> list_all (\<lambda>e. \<forall>q. e \<noteq> EvFree q) es"
  by (induction es) auto

lemma relocate_result:
  assumes a: "mi_heap_malloc_aligned_at B cfg heap newsize alignment offset s = (newp, s1)"
  shows "appended (\<lambda>e. \<not> touches_block e) s s1
     \<and> (newp = 0 \<longrightarrow> realloc_relocate B cfg heap p newsize alignment offset zero sz s = (0, s1))
     \<and> (newp \<noteq> 0 \<longrightarrow>
          realloc_relocate B cfg heap p newsize alignment offset zero sz s
            = (newp, mi_free B p (mi_memcpy_aligned newp p (min sz newsize)
                       (realloc_zero_tail B newp newsize sz zero s1)))
          \<and> (\<exists>es. calls (snd (realloc_relocate B cfg heap p newsize alignment offset zero sz s))
                     = calls s @ es @ [EvMemcpy newp p (min sz newsize), EvFree p]
                   \<and> list_all (\<lambda>e. \<forall>q. e \<noteq> EvFree q) es))"
proof -
  have ap: "appended (\<lambda>e. \<not> touches_block e) s s1"
    using appended_aligned_at [of s B cfg heap newsize alignment offset] a
    by (simp add: mi_heap_malloc_aligned_at_def)
  have m: "(if newsize > sz then sz else newsize) = min sz newsize"
    by (auto simp add: min_def)
  have r: "realloc_relocate B cfg heap p newsize alignment offset zero sz s
            = (newp, mi_free B p (mi_memcpy_aligned newp p (min sz newsize)
                       (realloc_zero_tail B newp newsize sz zero s1)))" if "newp \<noteq> 0"
    using a that by (simp add: realloc_relocate_def Let_def m)
  obtain es where es: "calls s1 = calls s @ es" "list_all (\<lambda>e. \<not> touches_block e) es"
    using ap by (auto simp add: appended_def)
  obtain zs where zs: "calls (realloc_zero_tail B newp newsize sz zero s1) = calls s1 @ zs"
      "list_all (\<lambda>e. \<forall>q. e \<noteq> EvFree q) zs"
    using realloc_zero_tail_calls by blast
  have c: "\<exists>es. calls (snd (realloc_relocate B cfg heap p newsize alignment offset zero sz s))
                     = calls s @ es @ [EvMemcpy newp p (min sz newsize), EvFree p]
                   \<and> list_all (\<lambda>e. \<forall>q. e \<noteq> EvFree q) es" if "newp \<noteq> 0"
  proof -
    have "calls (snd (realloc_relocate B cfg heap p newsize alignment offset zero sz s))
            = calls s @ (es @ zs) @ [EvMemcpy newp p (min sz newsize), EvFree p]"
      using r [OF that] es zs by (simp add: free_calls memcpy_calls)
    moreover have "list_all (\<lambda>e. \<forall>q. e \<noteq> EvFree q) (es @ zs)"
      using no_touch_no_free [OF es(2)] zs(2) by simp
    ultimately show ?thesis by blast
  qed
  have z: "realloc_relocate B cfg heap p newsize alignment offset zero sz s = (0, s1)" if "newp = 0"
    using a that by (simp add: realloc_relocate_def)
  show ?thesis using ap r c z by blast
qed



section \<open>C4: relocation frees the old block last\<close>

text \<open>
  C4. On the relocation branch the reallocator first asks for the new aligned block,
  and that attempt makes no call that frees or writes. When it fails, the result is
  \<^verbatim>\<open>NULL\<close> and the state is the one the failed attempt left: nothing is freed and
  nothing is written. When it succeeds, the calls end with the copy of
  \<open>min usable newsize\<close> bytes from the old block to the new one and then
  \<^verbatim>\<open>mi_free\<close> of the old block, no block is freed before that, and in the state handed
  to \<^verbatim>\<open>mi_free\<close> the new block holds the copied bytes.
\<close>

theorem realloc_relocation_frees_last:
  assumes "sizeof_uintptr_t < alignment" and "p \<noteq> 0"
    and "\<not> (newsize \<le> mi_usable_size B p s
            \<and> mi_usable_size B p s - mi_usable_size B p s div 2 \<le> newsize
            \<and> (p + offset) mod alignment = 0)"
    and "mi_heap_malloc_aligned_at B cfg heap newsize alignment offset s = (newp, s1)"
  shows "appended (\<lambda>e. \<not> touches_block e) s s1
     \<and> (newp = 0 \<longrightarrow>
           mi_heap_realloc_zero_aligned_at B cfg heap p newsize alignment offset zero s = (0, s1))
     \<and> (newp \<noteq> 0 \<longrightarrow>
           mi_heap_realloc_zero_aligned_at B cfg heap p newsize alignment offset zero s
             = (newp, mi_free B p (mi_memcpy_aligned newp p (min (mi_usable_size B p s) newsize)
                        (realloc_zero_tail B newp newsize (mi_usable_size B p s) zero s1)))
           \<and> (\<exists>es. calls (snd (mi_heap_realloc_zero_aligned_at B cfg heap p newsize alignment offset zero s))
                      = calls s @ es @ [EvMemcpy newp p (min (mi_usable_size B p s) newsize), EvFree p]
                    \<and> list_all (\<lambda>e. \<forall>q. e \<noteq> EvFree q) es)
           \<and> (\<forall>i. i < min (mi_usable_size B p s) newsize \<longrightarrow>
                 mem (world (mi_memcpy_aligned newp p (min (mi_usable_size B p s) newsize)
                        (realloc_zero_tail B newp newsize (mi_usable_size B p s) zero s1))) (newp + i)
                 = mem (world (realloc_zero_tail B newp newsize (mi_usable_size B p s) zero s1)) (p + i)))"
proof -
  let ?sz = "mi_usable_size B p s"
  have na: "\<not> alignment \<le> sizeof_uintptr_t"
    using assms(1) by (simp add: not_le)
  have eq: "mi_heap_realloc_zero_aligned_at B cfg heap p newsize alignment offset zero s
      = realloc_relocate B cfg heap p newsize alignment offset zero ?sz s"
    using na assms(2,3) by (auto simp add: mi_heap_realloc_zero_aligned_at_def Let_def)
  show ?thesis
    unfolding eq using relocate_result [OF assms(4), of p zero ?sz] memcpy_mem by blast
qed

text \<open>
  Growing the live block of \<open>busy\<close> to 100 bytes copies its 48 bytes and frees it last;
  growing it to \<open>0x90000000\<close> bytes, which the sample allocator refuses, returns
  \<^verbatim>\<open>NULL\<close> and leaves memory and the allocator's state as they were.
\<close>

theorem realloc_relocation_frees_last_witness:
  "sizeof_uintptr_t < (32 :: size_t) \<and> (0x100000008 :: addr) \<noteq> 0
   \<and> \<not> ((100 :: size_t) \<le> mi_usable_size slot_base 0x100000008 busy
          \<and> mi_usable_size slot_base 0x100000008 busy - mi_usable_size slot_base 0x100000008 busy div 2 \<le> 100
          \<and> (0x100000008 + 8) mod (32 :: size_t) = 0)
   \<and> fst (mi_heap_malloc_aligned_at slot_base release_config 0x1000 100 32 8 busy) = 0x300000018
   \<and> fst (mi_heap_realloc_zero_aligned_at slot_base release_config 0x1000 0x100000008 100 32 8 True busy)
       = 0x300000018
   \<and> calls (snd (mi_heap_realloc_zero_aligned_at slot_base release_config 0x1000 0x100000008 100 32 8 True busy))
       = [EvGetFreeSmallPage 0x1000 100, EvHeapMallocZero 0x1000 131 False,
          EvPageSetHasAligned 0x300000000, EvMemset 0x300000040 0 60,
          EvMemcpy 0x300000018 0x100000008 48, EvFree 0x100000008]
   \<and> \<not> ((0x90000000 :: size_t) \<le> mi_usable_size slot_base 0x100000008 busy
          \<and> mi_usable_size slot_base 0x100000008 busy - mi_usable_size slot_base 0x100000008 busy div 2 \<le> 0x90000000
          \<and> (0x100000008 + 8) mod (32 :: size_t) = 0)
   \<and> fst (mi_heap_malloc_aligned_at slot_base release_config 0x1000 0x90000000 32 8 busy) = 0
   \<and> fst (mi_heap_realloc_zero_aligned_at slot_base release_config 0x1000 0x100000008 0x90000000 32 8 True busy) = 0
   \<and> world (snd (mi_heap_realloc_zero_aligned_at slot_base release_config 0x1000 0x100000008 0x90000000 32 8 True busy))
       = world busy
   \<and> calls (snd (mi_heap_realloc_zero_aligned_at slot_base release_config 0x1000 0x100000008 0x90000000 32 8 True busy))
       = [EvHeapMallocZero 0x1000 0x9000001F False]"
proof -
  let ?a = "mi_heap_malloc_aligned_at slot_base release_config 0x1000 100 32 8 busy"
  let ?b = "mi_heap_malloc_aligned_at slot_base release_config 0x1000 0x90000000 32 8 busy"
  have h1: "sizeof_uintptr_t < (32 :: size_t)" and h2: "(0x100000008 :: addr) \<noteq> 0"
    by (simp_all add: sizeof_uintptr_t_def)
  have u: "mi_usable_size slot_base 0x100000008 busy = 48"
    by (simp add: call_defs sample_defs)
  have h3: "\<not> ((100 :: size_t) \<le> mi_usable_size slot_base 0x100000008 busy
          \<and> mi_usable_size slot_base 0x100000008 busy - mi_usable_size slot_base 0x100000008 busy div 2 \<le> 100
          \<and> (0x100000008 + 8) mod (32 :: size_t) = 0)"
    and h3': "\<not> ((0x90000000 :: size_t) \<le> mi_usable_size slot_base 0x100000008 busy
          \<and> mi_usable_size slot_base 0x100000008 busy - mi_usable_size slot_base 0x100000008 busy div 2 \<le> 0x90000000
          \<and> (0x100000008 + 8) mod (32 :: size_t) = 0)"
    by (simp_all add: u)
  have h4: "?a = (fst ?a, snd ?a)" and h4': "?b = (fst ?b, snd ?b)"
    by simp_all
  have a: "fst ?a = 0x300000018"
    and ac: "calls (snd ?a) = [EvGetFreeSmallPage 0x1000 100, EvHeapMallocZero 0x1000 131 False,
          EvPageSetHasAligned 0x300000000]"
    by (simp_all add: mi_heap_malloc_aligned_at_def aligned_alloc_defs call_defs sample_defs Let_def)
  have b: "fst ?b = 0" and bw: "world (snd ?b) = world busy"
    and bc: "calls (snd ?b) = [EvHeapMallocZero 0x1000 0x9000001F False]"
    by (simp_all add: mi_heap_malloc_aligned_at_def aligned_alloc_defs call_defs sample_defs Let_def)
  have z: "calls (realloc_zero_tail slot_base 0x300000018 100 48 True (snd ?a))
             = calls (snd ?a) @ [EvMemset 0x300000040 0 60]"
    by (simp add: realloc_zero_tail_def call_defs sample_defs Let_def)
  show ?thesis
    using h1 h2 h3 h3' a b bw bc
      realloc_relocation_frees_last [OF h1 h2 h3 h4, where zero = True]
      realloc_relocation_frees_last [OF h1 h2 h3' h4', where zero = True]
    by (simp add: u ac z free_calls memcpy_calls)
qed

section \<open>C5: the natural-fit test and the small-object probe\<close>

text \<open>
  C5, as amended. For a valid request with offset 0 whose padded size is at least the
  alignment, at most \<open>MI_MEDIUM_OBJ_SIZE_MAX\<close> and a multiple of the alignment, the
  planner never carves. When the padded size is within \<open>MI_SMALL_SIZE_MAX\<close> it runs
  the small-object probe first (line 122) and hands out the free block of the page if
  there is one and it is aligned; otherwise, and for every larger padded size, the
  natural-fit test of the fallback (line 27) delegates to the base allocator's plain
  allocation.
\<close>

theorem natural_fit_follows_probe:
  assumes "k < 64" and "alignment = 2 ^ k" and "mi_is_power_of_two cfg alignment"
    and "sz \<le> PTRDIFF_MAX"
    and "alignment \<le> sz + MI_PADDING_SIZE cfg"
    and "sz + MI_PADDING_SIZE cfg \<le> MI_MEDIUM_OBJ_SIZE_MAX cfg"
    and "(sz + MI_PADDING_SIZE cfg) mod alignment = 0"
  shows "mi_heap_malloc_zero_aligned_at B cfg heap sz alignment 0 zero s
       = (if sz + MI_PADDING_SIZE cfg \<le> MI_SMALL_SIZE_MAX cfg then
            (let (free, s1) = mi_heap_get_free_small_page B heap (sz + MI_PADDING_SIZE cfg) s
             in if free \<noteq> 0 \<and> free mod alignment = 0
                then mi_page_malloc B heap (sz + MI_PADDING_SIZE cfg) zero s1
                else mi_heap_malloc_zero B heap sz zero s1)
          else mi_heap_malloc_zero B heap sz zero s)"
proof -
  have a0: "alignment \<noteq> 0"
    using assms(1,2) unat_pow2 [of k] by (auto simp add: unat_eq_0 [symmetric] simp del: unat_eq_0)
  have m: "x AND (alignment - 1) = x mod alignment" for x
    unfolding assms(2) by (rule and_pow2_minus_1_eq_mod)
  have fb: "mi_heap_malloc_zero_aligned_at_fallback B cfg heap sz alignment 0 zero t
              = mi_heap_malloc_zero B heap sz zero t" for t
    using assms(5,6,7) by (simp add: mi_heap_malloc_zero_aligned_at_fallback_def Let_def m)
  have nb: "\<not> PTRDIFF_MAX < sz"
    using assms(4) by (simp add: not_less)
  show ?thesis
    using a0 assms(3,5) nb
    by (simp add: mi_heap_malloc_zero_aligned_at_def Let_def fb m case_prod_beta)
qed

text \<open>
  64 bytes at 64 with an aligned free block (the probe serves it), without a free block
  (plain allocation after the probe), and 2048 bytes at 64 (plain allocation, no probe).
\<close>

theorem natural_fit_follows_probe_witness:
  "(6 :: nat) < 64 \<and> (64 :: size_t) = 2 ^ 6 \<and> mi_is_power_of_two release_config 64
   \<and> (64 :: size_t) \<le> PTRDIFF_MAX \<and> (2048 :: size_t) \<le> PTRDIFF_MAX
   \<and> (64 :: size_t) \<le> 64 + MI_PADDING_SIZE release_config
   \<and> (64 :: size_t) + MI_PADDING_SIZE release_config \<le> MI_MEDIUM_OBJ_SIZE_MAX release_config
   \<and> ((64 :: size_t) + MI_PADDING_SIZE release_config) mod 64 = 0
   \<and> (64 :: size_t) \<le> 2048 + MI_PADDING_SIZE release_config
   \<and> (2048 :: size_t) + MI_PADDING_SIZE release_config \<le> MI_MEDIUM_OBJ_SIZE_MAX release_config
   \<and> ((2048 :: size_t) + MI_PADDING_SIZE release_config) mod 64 = 0
   \<and> mi_heap_malloc_zero_aligned_at slot_base release_config 0x1000 64 64 0 False busy
       = mi_page_malloc slot_base 0x1000 64 False (snd (mi_heap_get_free_small_page slot_base 0x1000 64 busy))
   \<and> mi_heap_malloc_zero_aligned_at slot_base release_config 0x1000 64 64 0 False fresh
       = mi_heap_malloc_zero slot_base 0x1000 64 False (snd (mi_heap_get_free_small_page slot_base 0x1000 64 fresh))
   \<and> mi_heap_malloc_zero_aligned_at slot_base release_config 0x1000 2048 64 0 False busy
       = mi_heap_malloc_zero slot_base 0x1000 2048 False busy"
proof -
  have k: "(6 :: nat) < 64" and a: "(64 :: size_t) = 2 ^ 6" and h: "mi_is_power_of_two release_config 64"
    and s1: "(64 :: size_t) \<le> PTRDIFF_MAX" and s2: "(2048 :: size_t) \<le> PTRDIFF_MAX"
    and p1: "(64 :: size_t) \<le> 64 + MI_PADDING_SIZE release_config"
    and p2: "(64 :: size_t) + MI_PADDING_SIZE release_config \<le> MI_MEDIUM_OBJ_SIZE_MAX release_config"
    and p3: "((64 :: size_t) + MI_PADDING_SIZE release_config) mod 64 = 0"
    and q1: "(64 :: size_t) \<le> 2048 + MI_PADDING_SIZE release_config"
    and q2: "(2048 :: size_t) + MI_PADDING_SIZE release_config \<le> MI_MEDIUM_OBJ_SIZE_MAX release_config"
    and q3: "((2048 :: size_t) + MI_PADDING_SIZE release_config) mod 64 = 0"
    by (simp_all add: release_config_def PTRDIFF_MAX_def)
  have f1: "fst (mi_heap_get_free_small_page slot_base 0x1000 64 busy) = 0x200000040"
    and f2: "fst (mi_heap_get_free_small_page slot_base 0x1000 64 fresh) = 0"
    by (simp_all add: call_defs sample_defs)
  show ?thesis
    using k a h s1 s2 p1 p2 p3 q1 q2 q3 f1 f2
      natural_fit_follows_probe [OF k a h s1 p1 p2 p3, of slot_base "0x1000" False busy]
      natural_fit_follows_probe [OF k a h s1 p1 p2 p3, of slot_base "0x1000" False fresh]
      natural_fit_follows_probe [OF k a h s2 q1 q2 q3, of slot_base "0x1000" False busy]
    by (simp add: release_config_def case_prod_beta)
qed

text \<open>
  C5 as stated fails: the probe comes before the natural-fit test. 64 bytes at 64 with
  offset 0 meet the conditions of the natural fit, and are served by
  \<^verbatim>\<open>_mi_page_malloc\<close> on the probed page, not by the plain allocation.
\<close>

theorem natural_fit_request_is_probed:
  "(0 :: size_t) = 0
   \<and> (64 :: size_t) \<le> 64 + MI_PADDING_SIZE release_config
   \<and> (64 :: size_t) + MI_PADDING_SIZE release_config \<le> MI_MEDIUM_OBJ_SIZE_MAX release_config
   \<and> ((64 :: size_t) + MI_PADDING_SIZE release_config) mod 64 = 0
   \<and> fst (mi_heap_malloc_aligned_at slot_base release_config 0x1000 64 64 0 busy) = 0x200000040
   \<and> calls (snd (mi_heap_malloc_aligned_at slot_base release_config 0x1000 64 64 0 busy))
       = [EvGetFreeSmallPage 0x1000 64, EvPageMalloc 0x1000 64 False]
   \<and> fst (mi_heap_malloc_zero slot_base 0x1000 64 False busy) = 0x300000000
   \<and> calls (snd (mi_heap_malloc_zero slot_base 0x1000 64 False busy)) = [EvHeapMallocZero 0x1000 64 False]"
  by (simp add: entry_defs aligned_alloc_defs call_defs sample_defs Let_def)

section \<open>C6: invalid requests\<close>

text \<open>
  The primitive allocator (and with it every entry point that takes an offset, and the
  zeroing and counted ones) returns \<^verbatim>\<open>NULL\<close> without a call for alignment 0, for an
  alignment that fails the power-of-two test, and for a size above \<open>PTRDIFF_MAX\<close>.
  So does \<^verbatim>\<open>mi_heap_malloc_aligned\<close> with padding, and without padding unless the
  alignment is 0 and the power-of-two test accepts 0.
\<close>

lemma aligned_at_rejects_invalid:
  assumes "alignment = 0 \<or> \<not> mi_is_power_of_two cfg alignment \<or> sz > PTRDIFF_MAX"
  shows "mi_heap_malloc_zero_aligned_at B cfg heap sz alignment offset zero s = (0, s)"
  using assms by (auto simp add: mi_heap_malloc_zero_aligned_at_def)

lemma malloc_aligned_rejects_invalid:
  assumes inval: "alignment = 0 \<or> \<not> mi_is_power_of_two cfg alignment \<or> sz > PTRDIFF_MAX"
    and small: "MI_SMALL_SIZE_MAX cfg \<le> PTRDIFF_MAX"
    and pad: "MI_PADDING cfg \<Longrightarrow> mi_is_power_of_two cfg sizeof_voidp
                \<and> mi_is_power_of_two cfg (MI_MAX_ALIGN_SIZE cfg) \<and> MI_MAX_ALIGN_SIZE cfg \<noteq> 0"
    and nopad: "\<not> MI_PADDING cfg \<Longrightarrow> alignment \<noteq> 0 \<or> \<not> mi_is_power_of_two cfg 0"
  shows "mi_heap_malloc_aligned B cfg heap sz alignment s = (0, s)"
proof -
  have at: "mi_heap_malloc_aligned_at B cfg heap sz alignment 0 s = (0, s)"
    using aligned_at_rejects_invalid [OF inval] by (simp add: mi_heap_malloc_aligned_at_def)
  have big: "\<not> sz \<le> MI_SMALL_SIZE_MAX cfg" if "sz > PTRDIFF_MAX"
    using that small by auto
  show ?thesis
  proof (cases "MI_PADDING cfg")
    case True
    then show ?thesis
      using inval pad big at
      by (auto simp add: mi_heap_malloc_aligned_def sizeof_voidp_def)
  next
    case False
    then show ?thesis
      using inval nopad big at
      by (auto simp add: mi_heap_malloc_aligned_def)
  qed
qed

text \<open>
  Without padding, and with a power-of-two test that accepts 0, alignment 0 is served
  for every small size that passes the test, whatever the base allocator.
\<close>

lemma malloc_aligned_alignment_zero:
  assumes "\<not> MI_PADDING cfg" and "mi_is_power_of_two cfg 0"
    and "mi_is_power_of_two cfg sz" and "sz \<le> MI_SMALL_SIZE_MAX cfg"
  shows "mi_heap_malloc_aligned B cfg heap sz 0 s = mi_heap_malloc_small B heap sz s"
  using assms by (simp add: mi_heap_malloc_aligned_def)

text \<open>
  C6 fails for \<^verbatim>\<open>mi_heap_malloc_aligned\<close> and \<^verbatim>\<open>mi_malloc_aligned\<close> in a build without
  padding: line 153 tests the alignment with \<^verbatim>\<open>_mi_is_power_of_two\<close> alone, which
  lets 0 through when the helper is the bit trick, and line 154 then sends a small
  power-of-two size to \<^verbatim>\<open>mi_heap_malloc_small\<close>. The request of 8 bytes at alignment 0
  is served by the base allocator, where line 98 (the sibling check, with its own test
  for 0) and the build with padding return \<^verbatim>\<open>NULL\<close>.
\<close>

theorem malloc_aligned_serves_alignment_zero:
  "\<not> MI_PADDING release_config \<and> mi_is_power_of_two release_config 0
   \<and> mi_heap_malloc_aligned slot_base release_config 0x1000 8 0 fresh
       = mi_heap_malloc_small slot_base 0x1000 8 fresh
   \<and> fst (mi_heap_malloc_aligned slot_base release_config 0x1000 8 0 fresh) = 0x100000000
   \<and> calls (snd (mi_heap_malloc_aligned slot_base release_config 0x1000 8 0 fresh))
       = [EvHeapMallocSmall 0x1000 8]
   \<and> fst (mi_malloc_aligned slot_base release_config 8 0 fresh) = 0x100000000
   \<and> mi_heap_malloc_aligned_at slot_base release_config 0x1000 8 0 0 fresh = (0, fresh)
   \<and> mi_heap_malloc_aligned slot_base debug_config 0x1000 8 0 fresh = (0, fresh)"
  by (simp add: entry_defs aligned_alloc_defs call_defs sample_defs Let_def)

section \<open>C7: a huge alignment with an offset is rejected\<close>

lemma fallback_huge_offset:
  assumes "MI_ALIGNMENT_MAX cfg < alignment" and "offset \<noteq> 0"
  shows "mi_heap_malloc_zero_aligned_at_fallback B cfg heap sz alignment offset zero s = (0, s)"
  using assms by (simp add: mi_heap_malloc_zero_aligned_at_fallback_def Let_def)

text \<open>
  C7. When the alignment exceeds \<open>MI_ALIGNMENT_MAX\<close> and the offset is not 0, every
  aligned allocation with an offset returns \<^verbatim>\<open>NULL\<close> and leaves the state alone: no
  memory is requested. The small-object probe of line 122 cannot apply, since a padded
  size within \<open>MI_SMALL_SIZE_MAX\<close> is below such an alignment as long as
  \<open>MI_SMALL_SIZE_MAX \<le> MI_ALIGNMENT_MAX\<close>.
\<close>

theorem huge_alignment_with_offset_rejected:
  assumes "MI_SMALL_SIZE_MAX cfg \<le> MI_ALIGNMENT_MAX cfg"
    and "MI_ALIGNMENT_MAX cfg < alignment" and "offset \<noteq> 0"
  shows "mi_heap_malloc_zero_aligned_at B cfg heap sz alignment offset zero s = (0, s)
       \<and> mi_heap_malloc_aligned_at B cfg heap sz alignment offset s = (0, s)
       \<and> mi_heap_zalloc_aligned_at B cfg heap sz alignment offset s = (0, s)
       \<and> mi_heap_calloc_aligned_at B cfg heap count sz alignment offset s = (0, s)
       \<and> mi_malloc_aligned_at B cfg sz alignment offset s = (0, s)
       \<and> mi_zalloc_aligned_at B cfg sz alignment offset s = (0, s)
       \<and> mi_calloc_aligned_at B cfg count sz alignment offset s = (0, s)"
proof -
  have np: "\<not> (n \<le> MI_SMALL_SIZE_MAX cfg \<and> alignment \<le> n)" for n
    using assms(1,2) by auto
  have a: "mi_heap_malloc_zero_aligned_at B cfg h n alignment offset z s = (0, s)" for h n z
    by (simp add: mi_heap_malloc_zero_aligned_at_def Let_def np
        fallback_huge_offset [OF assms(2,3)])
  show ?thesis
    by (simp add: a mi_heap_malloc_aligned_at_def mi_heap_zalloc_aligned_at_def
        mi_heap_calloc_aligned_at_def mi_malloc_aligned_at_def mi_zalloc_aligned_at_def
        mi_calloc_aligned_at_def split: prod.splits)
qed

text \<open>
  With alignment 32 MiB the request with offset 8 is rejected, the one with offset 0 is
  served.
\<close>

theorem huge_alignment_with_offset_rejected_witness:
  "MI_SMALL_SIZE_MAX release_config \<le> MI_ALIGNMENT_MAX release_config
   \<and> MI_ALIGNMENT_MAX release_config < 0x2000000
   \<and> (8 :: size_t) \<noteq> 0
   \<and> mi_heap_zalloc_aligned_at slot_base release_config 0x1000 100 0x2000000 8 busy = (0, busy)
   \<and> fst (mi_heap_zalloc_aligned_at slot_base release_config 0x1000 100 0x2000000 0 busy) = 0x302000000"
proof -
  have h1: "MI_SMALL_SIZE_MAX release_config \<le> MI_ALIGNMENT_MAX release_config"
    and h2: "MI_ALIGNMENT_MAX release_config < 0x2000000"
    and h3: "(8 :: size_t) \<noteq> 0"
    by (simp_all add: release_config_def)
  have ok: "fst (mi_heap_zalloc_aligned_at slot_base release_config 0x1000 100 0x2000000 0 busy) = 0x302000000"
    by (simp add: mi_heap_zalloc_aligned_at_def aligned_alloc_defs call_defs sample_defs Let_def)
  show ?thesis
    using h1 h2 h3 ok
      huge_alignment_with_offset_rejected [OF h1 h2 h3, of slot_base "0x1000" 100 True busy]
    by simp
qed

section \<open>C8: counted variants reject an overflowing product\<close>

text \<open>
  C8. When \<open>count * size\<close> does not fit the 64-bit size type, every counted variant
  (\<^verbatim>\<open>calloc\<close> and \<^verbatim>\<open>recalloc\<close>, with and without offset, on a given heap or the
  default heap) returns \<^verbatim>\<open>NULL\<close> and leaves the state alone: no call is made.
\<close>

theorem counted_overflow_returns_null:
  assumes "2 ^ 64 \<le> unat count * unat sz"
  shows "mi_heap_calloc_aligned_at B cfg heap count sz alignment offset s = (0, s)
       \<and> mi_heap_calloc_aligned B cfg heap count sz alignment s = (0, s)
       \<and> mi_calloc_aligned_at B cfg count sz alignment offset s = (0, s)
       \<and> mi_calloc_aligned B cfg count sz alignment s = (0, s)
       \<and> mi_heap_recalloc_aligned_at B cfg heap p count sz alignment offset s = (0, s)
       \<and> mi_heap_recalloc_aligned B cfg heap p count sz alignment s = (0, s)
       \<and> mi_recalloc_aligned_at B cfg p count sz alignment offset s = (0, s)
       \<and> mi_recalloc_aligned B cfg p count sz alignment s = (0, s)"
  using assms
  by (simp add: mi_heap_calloc_aligned_at_def mi_heap_calloc_aligned_def mi_calloc_aligned_at_def
      mi_calloc_aligned_def mi_heap_recalloc_aligned_at_def mi_heap_recalloc_aligned_def
      mi_recalloc_aligned_at_def mi_recalloc_aligned_def mi_count_size_overflow_def)

theorem counted_overflow_returns_null_witness:
  "(2 :: nat) ^ 64 \<le> unat (0x100000000 :: size_t) * unat (0x100000000 :: size_t)
   \<and> mi_heap_calloc_aligned slot_base release_config 0x1000 0x100000000 0x100000000 64 fresh = (0, fresh)
   \<and> mi_recalloc_aligned_at slot_base release_config 0x100000008 0x100000000 0x100000000 64 0 busy = (0, busy)"
proof -
  have h: "(2 :: nat) ^ 64 \<le> unat (0x100000000 :: size_t) * unat (0x100000000 :: size_t)"
    by simp
  show ?thesis
    using h counted_overflow_returns_null [OF h, of slot_base release_config "0x1000" 64 0 fresh]
      counted_overflow_returns_null [OF h, of slot_base release_config "0x1000" 64 0 busy "0x100000008"]
    by simp
qed

section \<open>C9: reallocation without an explicit offset\<close>

lemma aligned_at_success_pow2:
  assumes "pow2_helper_sound cfg"
    and "fst (mi_heap_malloc_zero_aligned_at B cfg heap sz alignment offset zero s) \<noteq> 0"
  shows "\<exists>k<64. alignment = 2 ^ k"
proof -
  have "alignment \<noteq> 0" and "mi_is_power_of_two cfg alignment"
    using assms(2) by (auto simp add: mi_heap_malloc_zero_aligned_at_def split: if_splits)
  then show ?thesis using assms(1) unfolding pow2_helper_sound_def by blast
qed

lemma mod_sum_zero:
  fixes r o' :: "64 word"
  assumes "k < 64" and "(r + o') AND (2 ^ k - 1) = 0" and "o' = p mod 2 ^ k"
  shows "(r + o') mod 2 ^ k = 0" and "r mod 2 ^ k = 0 \<longleftrightarrow> o' = 0"
proof -
  show "(r + o') mod 2 ^ k = 0"
    using assms(2) by (simp only: and_pow2_minus_1_eq_mod)
  have n: "(unat r + unat o') mod 2 ^ k = 0"
    using masked_zero_nat [OF assms(1,2)] by (simp only: unat_pow2 [OF assms(1)])
  have ur: "unat (r mod 2 ^ k) = unat r mod 2 ^ k"
    by (simp only: unat_mod unat_pow2 [OF assms(1)])
  have uo: "unat o' = unat p mod 2 ^ k"
    by (simp only: assms(3) unat_mod unat_pow2 [OF assms(1)])
  have olt: "unat o' < 2 ^ k" by (simp add: uo)
  show "r mod 2 ^ k = 0 \<longleftrightarrow> o' = 0"
  proof
    assume "r mod 2 ^ k = 0"
    then have "unat r mod 2 ^ k = 0" using ur by simp
    then have "(2 :: nat) ^ k dvd unat r" by (simp only: mod_eq_0_iff_dvd)
    moreover have "(2 :: nat) ^ k dvd unat r + unat o'" using n by (simp only: mod_eq_0_iff_dvd)
    ultimately have "(2 :: nat) ^ k dvd unat o'" by (simp only: dvd_add_right_iff)
    then have "unat o' = 0" using olt by (auto dest: dvd_imp_le)
    then show "o' = 0" by (simp add: unat_eq_0)
  next
    assume "o' = 0"
    then have "unat r mod 2 ^ k = 0" using n by simp
    then have "unat (r mod 2 ^ k) = 0" using ur by simp
    then show "r mod 2 ^ k = 0" by (simp add: unat_eq_0)
  qed
qed

lemma realloc_at_result_offset:
  assumes ba: "base_aligns B cfg" and hs: "pow2_helper_sound cfg"
    and al: "sizeof_uintptr_t < alignment" and p: "p \<noteq> 0"
    and o: "o' = p mod alignment"
    and r: "fst (mi_heap_realloc_zero_aligned_at B cfg heap p newsize alignment o' zero s) \<noteq> 0"
  shows "(fst (mi_heap_realloc_zero_aligned_at B cfg heap p newsize alignment o' zero s) + o') mod alignment = 0
       \<and> (fst (mi_heap_realloc_zero_aligned_at B cfg heap p newsize alignment o' zero s) mod alignment = 0
            \<longleftrightarrow> p mod alignment = 0)"
proof -
  let ?R = "mi_heap_realloc_zero_aligned_at B cfg heap p newsize alignment o' zero s"
  let ?sz = "mi_usable_size B p s"
  let ?A = "mi_heap_malloc_aligned_at B cfg heap newsize alignment o' s"
  define keep where "keep \<longleftrightarrow> newsize \<le> ?sz \<and> ?sz - ?sz div 2 \<le> newsize \<and> (p + o') mod alignment = 0"
  have na: "\<not> alignment \<le> sizeof_uintptr_t" using al by (simp add: not_le)
  have R: "?R = (if keep then (p, s) else realloc_relocate B cfg heap p newsize alignment o' zero ?sz s)"
    unfolding keep_def using na p by (simp add: mi_heap_realloc_zero_aligned_at_def Let_def)
  show ?thesis
  proof (cases keep)
    case True
    then have "fst ?R = p" by (simp only: R if_True fst_conv)
    then show ?thesis using True o by (simp add: keep_def)
  next
    case False
    then have "?R = realloc_relocate B cfg heap p newsize alignment o' zero ?sz s"
      by (simp only: R if_False)
    then have f: "fst ?R = fst ?A"
      by (simp add: realloc_relocate_def Let_def case_prod_beta)
    then have ne: "fst (mi_heap_malloc_zero_aligned_at B cfg heap newsize alignment o' False s) \<noteq> 0"
      using r by (simp add: mi_heap_malloc_aligned_at_def)
    then obtain k where k: "k < 64" "alignment = 2 ^ k"
      using aligned_at_success_pow2 [OF hs] by blast
    have m: "(fst ?A + o') AND (2 ^ k - 1) = 0"
      using aligned_at_masked [OF ba k(1), of heap newsize o' False s] ne
      by (simp add: mi_heap_malloc_aligned_at_def k(2))
    have o2: "o' = p mod 2 ^ k" using o k(2) by simp
    have "(fst ?A + o') mod 2 ^ k = 0 \<and> (fst ?A mod 2 ^ k = 0 \<longleftrightarrow> o' = 0)"
      using mod_sum_zero [OF k(1) m o2] by simp
    then have "(fst ?A + o') mod alignment = 0 \<and> (fst ?A mod alignment = 0 \<longleftrightarrow> o' = 0)"
      by (simp only: k(2) [symmetric])
    then show ?thesis
      unfolding f by (simp only: o)
  qed
qed

text \<open>
  For an alignment above \<^verbatim>\<open>sizeof(uintptr_t)\<close>, the reallocators without an explicit
  offset are the ones with offset \<open>p mod alignment\<close> (line 267).
\<close>

lemma realloc_aligned_offset_used:
  assumes "sizeof_uintptr_t < alignment"
  shows "mi_heap_realloc_zero_aligned B cfg heap p newsize alignment zero s
           = mi_heap_realloc_zero_aligned_at B cfg heap p newsize alignment (p mod alignment) zero s"
    and "mi_heap_realloc_aligned B cfg heap p newsize alignment s
           = mi_heap_realloc_aligned_at B cfg heap p newsize alignment (p mod alignment) s"
    and "mi_heap_rezalloc_aligned B cfg heap p newsize alignment s
           = mi_heap_rezalloc_aligned_at B cfg heap p newsize alignment (p mod alignment) s"
    and "mi_heap_recalloc_aligned B cfg heap p newcount sz alignment s
           = mi_heap_recalloc_aligned_at B cfg heap p newcount sz alignment (p mod alignment) s"
    and "mi_realloc_aligned B cfg p newsize alignment s
           = mi_realloc_aligned_at B cfg p newsize alignment (p mod alignment) s"
    and "mi_rezalloc_aligned B cfg p newsize alignment s
           = mi_rezalloc_aligned_at B cfg p newsize alignment (p mod alignment) s"
    and "mi_recalloc_aligned B cfg p newcount sz alignment s
           = mi_recalloc_aligned_at B cfg p newcount sz alignment (p mod alignment) s"
proof -
  have na: "\<not> alignment \<le> sizeof_uintptr_t" using assms by (simp add: not_le)
  show e: "mi_heap_realloc_zero_aligned B cfg heap p newsize alignment zero s
           = mi_heap_realloc_zero_aligned_at B cfg heap p newsize alignment (p mod alignment) zero s"
    for heap newsize zero
    using na by (simp add: mi_heap_realloc_zero_aligned_def Let_def)
  show a: "mi_heap_realloc_aligned B cfg heap p newsize alignment s
           = mi_heap_realloc_aligned_at B cfg heap p newsize alignment (p mod alignment) s"
    for heap
    by (simp add: e mi_heap_realloc_aligned_def mi_heap_realloc_aligned_at_def)
  show z: "mi_heap_rezalloc_aligned B cfg heap p newsize alignment s
           = mi_heap_rezalloc_aligned_at B cfg heap p newsize alignment (p mod alignment) s"
    for heap newsize
    by (simp add: e mi_heap_rezalloc_aligned_def mi_heap_rezalloc_aligned_at_def)
  show c: "mi_heap_recalloc_aligned B cfg heap p newcount sz alignment s
           = mi_heap_recalloc_aligned_at B cfg heap p newcount sz alignment (p mod alignment) s"
    for heap
    by (simp add: z mi_heap_recalloc_aligned_def mi_heap_recalloc_aligned_at_def case_prod_beta)
  show "mi_realloc_aligned B cfg p newsize alignment s
           = mi_realloc_aligned_at B cfg p newsize alignment (p mod alignment) s"
    by (simp add: a mi_realloc_aligned_def mi_realloc_aligned_at_def)
  show "mi_rezalloc_aligned B cfg p newsize alignment s
           = mi_rezalloc_aligned_at B cfg p newsize alignment (p mod alignment) s"
    by (simp add: z mi_rezalloc_aligned_def mi_rezalloc_aligned_at_def)
  show "mi_recalloc_aligned B cfg p newcount sz alignment s
           = mi_recalloc_aligned_at B cfg p newcount sz alignment (p mod alignment) s"
    by (simp add: c mi_recalloc_aligned_def mi_recalloc_aligned_at_def)
qed

text \<open>
  What the primitive allocator then guarantees of a successful result \<open>r\<close> for a
  pointer \<open>p\<close> other than \<^verbatim>\<open>NULL\<close> is \<open>(r + p mod alignment) mod alignment = 0\<close>, for
  every base allocator that aligns as the source asserts: \<open>r\<close> is a multiple of the
  alignment only when \<open>p\<close> was.
\<close>

lemma realloc_aligned_result_residue:
  assumes "base_aligns B cfg" and "pow2_helper_sound cfg" and "sizeof_uintptr_t < alignment"
    and "p \<noteq> 0"
    and "fst (mi_heap_realloc_zero_aligned B cfg heap p newsize alignment zero s) \<noteq> 0"
  shows "(fst (mi_heap_realloc_zero_aligned B cfg heap p newsize alignment zero s) + p mod alignment)
            mod alignment = 0"
    and "fst (mi_heap_realloc_zero_aligned B cfg heap p newsize alignment zero s) mod alignment = 0
            \<longleftrightarrow> p mod alignment = 0"
  using realloc_at_result_offset [OF assms(1-4) refl, of heap newsize zero s] assms(5)
  by (simp_all add: realloc_aligned_offset_used(1) [OF assms(3)])

text \<open>
  C9 fails in its consequence. The live block of \<open>busy\<close> lies at \<open>0x100000008\<close>, which
  is 8 modulo 32: a block aligned to 32 at offset 24. Grown to 100 bytes at alignment
  32 by any of the six reallocators without an offset, it moves to \<open>0x300000018\<close>,
  which is 24 modulo 32 and not 8: line 267 passes \<open>p mod 32 = 8\<close> as the offset, and
  an offset of 8 places the result at 24. The result is no longer aligned at offset 24.
  Shrunk to 40 of its 48 bytes the block moves as well, where the same call with the
  block's own offset 24, and the in-place rule, leave it where it is.
\<close>

theorem realloc_aligned_not_congruent:
  "fst (mi_heap_realloc_aligned slot_base release_config 0x1000 0x100000008 100 32 busy) = 0x300000018
   \<and> fst (mi_heap_realloc_aligned slot_base release_config 0x1000 0x100000008 100 32 busy) mod 32 = 24
   \<and> (0x100000008 :: addr) mod 32 = 8
   \<and> fst (mi_heap_rezalloc_aligned slot_base release_config 0x1000 0x100000008 100 32 busy) = 0x300000018
   \<and> fst (mi_heap_recalloc_aligned slot_base release_config 0x1000 0x100000008 25 4 32 busy) = 0x300000018
   \<and> fst (mi_realloc_aligned slot_base release_config 0x100000008 100 32 busy) = 0x300000018
   \<and> fst (mi_rezalloc_aligned slot_base release_config 0x100000008 100 32 busy) = 0x300000018
   \<and> fst (mi_recalloc_aligned slot_base release_config 0x100000008 25 4 32 busy) = 0x300000018
   \<and> ((0x100000008 :: addr) + 24) mod 32 = 0
   \<and> ((0x300000018 :: addr) + 24) mod 32 = 16
   \<and> mi_usable_size slot_base 0x100000008 busy = 48
   \<and> fst (mi_heap_realloc_aligned slot_base release_config 0x1000 0x100000008 40 32 busy) = 0x300000018
   \<and> mi_heap_realloc_aligned_at slot_base release_config 0x1000 0x100000008 40 32 24 busy
       = (0x100000008, busy)"
  by (simp add: mi_heap_realloc_aligned_def mi_heap_rezalloc_aligned_def mi_heap_recalloc_aligned_def
      mi_realloc_aligned_def mi_rezalloc_aligned_def mi_recalloc_aligned_def
      mi_heap_realloc_aligned_at_def mi_count_size_overflow_def
      realloc_defs aligned_alloc_defs call_defs sample_defs Let_def)

section \<open>C10: small alignments go straight to the resize primitive\<close>

text \<open>
  An aligned reallocator called with an alignment of at most \<^verbatim>\<open>sizeof(uintptr_t)\<close>, 0
  and values that are no power of two included, is the unaligned resize primitive
  \<^verbatim>\<open>_mi_heap_realloc_zero\<close> on the same heap, pointer and size (lines 235 and 266):
  the alignment is not looked at. The counted variants test the product first.
\<close>

lemma realloc_small_alignment_delegates:
  assumes "alignment \<le> sizeof_uintptr_t"
  shows "mi_heap_realloc_zero_aligned_at B cfg heap p newsize alignment offset zero s
           = mi_heap_realloc_zero B heap p newsize zero s"
    and "mi_heap_realloc_zero_aligned B cfg heap p newsize alignment zero s
           = mi_heap_realloc_zero B heap p newsize zero s"
    and "mi_heap_realloc_aligned_at B cfg heap p newsize alignment offset s
           = mi_heap_realloc_zero B heap p newsize False s"
    and "mi_heap_realloc_aligned B cfg heap p newsize alignment s
           = mi_heap_realloc_zero B heap p newsize False s"
    and "mi_heap_rezalloc_aligned_at B cfg heap p newsize alignment offset s
           = mi_heap_realloc_zero B heap p newsize True s"
    and "mi_heap_rezalloc_aligned B cfg heap p newsize alignment s
           = mi_heap_realloc_zero B heap p newsize True s"
    and "mi_heap_recalloc_aligned_at B cfg heap p newcount sz alignment offset s
           = (if fst (mi_count_size_overflow newcount sz) then (0, s)
              else mi_heap_realloc_zero B heap p (snd (mi_count_size_overflow newcount sz)) True s)"
    and "mi_heap_recalloc_aligned B cfg heap p newcount sz alignment s
           = (if fst (mi_count_size_overflow newcount sz) then (0, s)
              else mi_heap_realloc_zero B heap p (snd (mi_count_size_overflow newcount sz)) True s)"
    and "mi_realloc_aligned_at B cfg p newsize alignment offset s
           = mi_heap_realloc_zero B (mi_get_default_heap B s) p newsize False s"
    and "mi_realloc_aligned B cfg p newsize alignment s
           = mi_heap_realloc_zero B (mi_get_default_heap B s) p newsize False s"
    and "mi_rezalloc_aligned_at B cfg p newsize alignment offset s
           = mi_heap_realloc_zero B (mi_get_default_heap B s) p newsize True s"
    and "mi_rezalloc_aligned B cfg p newsize alignment s
           = mi_heap_realloc_zero B (mi_get_default_heap B s) p newsize True s"
    and "mi_recalloc_aligned_at B cfg p newcount sz alignment offset s
           = (if fst (mi_count_size_overflow newcount sz) then (0, s)
              else mi_heap_realloc_zero B (mi_get_default_heap B s) p
                     (snd (mi_count_size_overflow newcount sz)) True s)"
    and "mi_recalloc_aligned B cfg p newcount sz alignment s
           = (if fst (mi_count_size_overflow newcount sz) then (0, s)
              else mi_heap_realloc_zero B (mi_get_default_heap B s) p
                     (snd (mi_count_size_overflow newcount sz)) True s)"
  using assms
  by (simp_all add: mi_heap_realloc_zero_aligned_at_def mi_heap_realloc_zero_aligned_def
      mi_heap_realloc_aligned_at_def mi_heap_realloc_aligned_def
      mi_heap_rezalloc_aligned_at_def mi_heap_rezalloc_aligned_def
      mi_heap_recalloc_aligned_at_def mi_heap_recalloc_aligned_def
      mi_realloc_aligned_at_def mi_realloc_aligned_def
      mi_rezalloc_aligned_at_def mi_rezalloc_aligned_def
      mi_recalloc_aligned_at_def mi_recalloc_aligned_def case_prod_beta)

text \<open>
  C10 fails in its last clause, that the aligned allocators reject alignment 0. In a
  build without padding, with the bit trick as the power-of-two test:
  \<^item> the reallocators are the resize primitive at alignment 0, and at alignment 6 with
    offset 1, and move the live block of \<open>busy\<close> to \<open>0x300000000\<close>, as the claim says;
  \<^item> \<^verbatim>\<open>mi_heap_malloc_aligned\<close> and \<^verbatim>\<open>mi_malloc_aligned\<close>, asked for 16 bytes at
    alignment 0, do not return \<^verbatim>\<open>NULL\<close> either: line 153 lets 0 through and line 154
    hands the request to \<^verbatim>\<open>mi_heap_malloc_small\<close>, which returns a block;
  \<^item> the same allocator rejects alignment 6, and the allocators that take an offset
    reject alignment 0 (line 98), each without a call.
\<close>

theorem malloc_aligned_no_stricter_than_realloc_at_zero:
  "(0 :: size_t) \<le> sizeof_uintptr_t \<and> (6 :: size_t) \<le> sizeof_uintptr_t
   \<and> \<not> mi_is_power_of_two release_config 6
   \<and> mi_heap_realloc_aligned slot_base release_config 0x1000 0x100000008 100 0 busy
       = mi_heap_realloc_zero slot_base 0x1000 0x100000008 100 False busy
   \<and> fst (mi_heap_realloc_aligned slot_base release_config 0x1000 0x100000008 100 0 busy) = 0x300000000
   \<and> mi_heap_rezalloc_aligned_at slot_base release_config 0x1000 0x100000008 100 6 1 busy
       = mi_heap_realloc_zero slot_base 0x1000 0x100000008 100 True busy
   \<and> fst (mi_heap_rezalloc_aligned_at slot_base release_config 0x1000 0x100000008 100 6 1 busy) = 0x300000000
   \<and> fst (mi_heap_malloc_aligned slot_base release_config 0x1000 16 0 busy) = 0x300000000
   \<and> calls (snd (mi_heap_malloc_aligned slot_base release_config 0x1000 16 0 busy))
       = [EvHeapMallocSmall 0x1000 16]
   \<and> fst (mi_malloc_aligned slot_base release_config 16 0 busy) = 0x300000000
   \<and> mi_heap_malloc_aligned slot_base release_config 0x1000 16 6 busy = (0, busy)
   \<and> mi_heap_malloc_aligned_at slot_base release_config 0x1000 16 0 0 busy = (0, busy)
   \<and> mi_heap_zalloc_aligned slot_base release_config 0x1000 16 0 busy = (0, busy)"
  by (simp add: mi_heap_realloc_aligned_def mi_heap_rezalloc_aligned_at_def
      realloc_defs entry_defs aligned_alloc_defs call_defs sample_defs Let_def)

end
